theory Spec2Isabelle
  imports Main "HOL-Library.AList"
begin

section \<open>JavaScript values and the operators the executors use\<close>

text \<open>
  The executors work on untyped data (\<open>any\<close>): provider responses, the
  workflow variables, the results they return. Such data is a JSON-like value.
  Numbers are the integers (token counts, positions, indices). An object is its list of
  entries in insertion order, with unique keys. Strings are byte strings; character
  classes and case folding are the ASCII ones.

  A property read with a name that the caller chooses can leave the data: it finds what
  the value inherits through its prototype chain (\<open>constructor\<close>, \<open>toString\<close>,
  \<open>__proto__\<close>), which is an object or a function of the runtime. Such a value is a
  \<open>JBuiltin\<close>, known by its name only: a function, or a prototype object that is neither
  an array nor a string (the prototype of the arrays is itself an empty array, and is
  given as one).
\<close>

datatype builtin =
    BuiltinPrototype string
  | BuiltinFunction string

datatype jsval =
    JUndefined
  | JNull
  | JBool bool
  | JNum int
  | JStr string
  | JArr "jsval list"
  | JObj "(string \<times> jsval) list"
  | JBuiltin builtin

text \<open>
  A thrown value: an \<open>Error\<close> object (a \<open>TypeError\<close> is one) with its message, or
  anything else, for which \<open>error instanceof Error\<close> is false.
\<close>

datatype exn = Error string | NonError

definition errorMessage :: "exn \<Rightarrow> string" where
  \<comment> \<open>\<open>error instanceof Error ? error.message : 'Unknown error'\<close>\<close>
  "errorMessage e = (case e of Error m \<Rightarrow> m | NonError \<Rightarrow> ''Unknown error'')"

definition bindE :: "exn + 'a \<Rightarrow> ('a \<Rightarrow> exn + 'b) \<Rightarrow> exn + 'b" where
  "bindE r f = (case r of Inl e \<Rightarrow> Inl e | Inr v \<Rightarrow> f v)"

fun mapE :: "('a \<Rightarrow> exn + 'b) \<Rightarrow> 'a list \<Rightarrow> exn + 'b list" where
  "mapE f [] = Inr []"
| "mapE f (x # xs) =
     (case f x of
        Inl e \<Rightarrow> Inl e
      | Inr y \<Rightarrow> (case mapE f xs of Inl e \<Rightarrow> Inl e | Inr ys \<Rightarrow> Inr (y # ys)))"

definition truthy :: "jsval \<Rightarrow> bool" where
  "truthy v =
     (case v of
        JUndefined \<Rightarrow> False
      | JNull \<Rightarrow> False
      | JBool b \<Rightarrow> b
      | JNum n \<Rightarrow> n \<noteq> 0
      | JStr s \<Rightarrow> s \<noteq> []
      | JArr _ \<Rightarrow> True
      | JObj _ \<Rightarrow> True
      | JBuiltin _ \<Rightarrow> True)"

definition js_or :: "jsval \<Rightarrow> jsval \<Rightarrow> jsval" where
  \<comment> \<open>\<open>a || b\<close>\<close>
  "js_or a b = (if truthy a then a else b)"

definition nullish :: "jsval \<Rightarrow> bool" where
  "nullish v = (v = JUndefined \<or> v = JNull)"

definition js_coalesce :: "jsval \<Rightarrow> jsval \<Rightarrow> jsval" where
  \<comment> \<open>\<open>a ?? b\<close>\<close>
  "js_coalesce a b = (if nullish a then b else a)"

definition isArray :: "jsval \<Rightarrow> bool" where
  "isArray v = (case v of JArr _ \<Rightarrow> True | _ \<Rightarrow> False)"

definition isString :: "jsval \<Rightarrow> bool" where
  \<comment> \<open>\<open>typeof v === 'string'\<close>\<close>
  "isString v = (case v of JStr _ \<Rightarrow> True | _ \<Rightarrow> False)"

definition isObjectType :: "jsval \<Rightarrow> bool" where
  \<comment> \<open>\<open>typeof v === 'object'\<close>: objects, arrays, \<open>null\<close> and the prototypes\<close>
  "isObjectType v =
     (case v of
        JObj _ \<Rightarrow> True
      | JArr _ \<Rightarrow> True
      | JNull \<Rightarrow> True
      | JBuiltin (BuiltinPrototype _) \<Rightarrow> True
      | _ \<Rightarrow> False)"

subsection \<open>Strings\<close>

definition isDigit :: "char \<Rightarrow> bool" where
  "isDigit c = (c \<in> set ''0123456789'')"

definition isAlnum :: "char \<Rightarrow> bool" where
  "isAlnum c =
     (c \<in> set ''abcdefghijklmnopqrstuvwxyzABCDEFGHIJKLMNOPQRSTUVWXYZ0123456789'')"

definition isWord :: "char \<Rightarrow> bool" where
  \<comment> \<open>the class \<open>\w\<close>\<close>
  "isWord c = (isAlnum c \<or> c = CHR ''_'')"

definition lowerChar :: "char \<Rightarrow> char" where
  "lowerChar c =
     (case map_of (zip ''ABCDEFGHIJKLMNOPQRSTUVWXYZ'' ''abcdefghijklmnopqrstuvwxyz'') c of
        Some l \<Rightarrow> l
      | None \<Rightarrow> c)"

definition toLowerCase :: "string \<Rightarrow> string" where
  "toLowerCase s = map lowerChar s"

fun startsWith :: "string \<Rightarrow> string \<Rightarrow> bool" where
  "startsWith s [] = True"
| "startsWith [] (c # cs) = False"
| "startsWith (x # xs) (c # cs) = (x = c \<and> startsWith xs cs)"

fun str_includes :: "string \<Rightarrow> string \<Rightarrow> bool" where
  "str_includes [] t = (t = [])"
| "str_includes (x # xs) t = (startsWith (x # xs) t \<or> str_includes xs t)"


fun split_on :: "char \<Rightarrow> string \<Rightarrow> string list" where
  \<comment> \<open>\<open>s.split(c)\<close>: the empty string gives one empty part\<close>
  "split_on c [] = [[]]"
| "split_on c (x # xs) =
     (if x = c then [] # split_on c xs
      else (case split_on c xs of
              [] \<Rightarrow> [[x]]
            | p # ps \<Rightarrow> (x # p) # ps))"

definition digitVal :: "char \<Rightarrow> nat" where
  "digitVal c = (case map_of (zip ''0123456789'' [0, 1, 2, 3, 4, 5, 6, 7, 8, 9]) c of
                   Some d \<Rightarrow> d | None \<Rightarrow> 0)"

definition parseInt :: "string \<Rightarrow> nat" where
  \<comment> \<open>\<open>parseInt\<close> on a string of decimal digits\<close>
  "parseInt ds = foldl (\<lambda>acc c. 10 * acc + digitVal c) 0 ds"

definition canonIndex :: "string \<Rightarrow> string" where
  \<comment> \<open>the property key of the number written by the digits: no leading zeros\<close>
  "canonIndex ds = (case dropWhile (\<lambda>c. c = CHR ''0'') ds of [] \<Rightarrow> ''0'' | r \<Rightarrow> r)"

definition isIndexKey :: "string \<Rightarrow> bool" where
  \<comment> \<open>a property key that is an array index: canonical decimal digits\<close>
  "isIndexKey k = (k \<noteq> [] \<and> list_all isDigit k \<and> canonIndex k = k)"

subsection \<open>Property access\<close>

definition nth_or_undefined :: "jsval list \<Rightarrow> nat \<Rightarrow> jsval" where
  "nth_or_undefined xs i = (if i < length xs then xs ! i else JUndefined)"

definition typeError :: "jsval \<Rightarrow> string \<Rightarrow> exn" where
  \<comment> \<open>the \<open>TypeError\<close> of a property read on \<open>null\<close> or \<open>undefined\<close>, with V8's text\<close>
  "typeError v k =
     Error (''Cannot read properties of ''
            @ (if v = JNull then ''null'' else ''undefined'')
            @ '' (reading '' @ [CHR 0x27] @ k @ [CHR 0x27] @ '')'')"

text \<open>
  The own properties of a value: the entries of an object, the elements and the length
  of an array, the characters and the length of a string.
\<close>

definition hasOwn :: "jsval \<Rightarrow> string \<Rightarrow> bool" where
  "hasOwn v k =
     (case v of
        JObj kvs \<Rightarrow> map_of kvs k \<noteq> None
      | JArr xs \<Rightarrow> k = ''length'' \<or> (isIndexKey k \<and> parseInt k < length xs)
      | JStr s \<Rightarrow> k = ''length'' \<or> (isIndexKey k \<and> parseInt k < length s)
      | _ \<Rightarrow> False)"

definition getOwn :: "jsval \<Rightarrow> string \<Rightarrow> jsval" where
  \<comment> \<open>the own property \<open>k\<close> of a \<open>v\<close> that is neither \<open>null\<close> nor \<open>undefined\<close>, and
      \<open>undefined\<close> when \<open>v\<close> has none\<close>
  "getOwn v k =
     (case v of
        JObj kvs \<Rightarrow> (case map_of kvs k of Some x \<Rightarrow> x | None \<Rightarrow> JUndefined)
      | JArr xs \<Rightarrow>
          (if k = ''length'' then JNum (int (length xs))
           else if isIndexKey k then nth_or_undefined xs (parseInt k)
           else JUndefined)
      | JStr s \<Rightarrow>
          (if k = ''length'' then JNum (int (length s))
           else if isIndexKey k \<and> parseInt k < length s then JStr [s ! parseInt k]
           else JUndefined)
      | _ \<Rightarrow> JUndefined)"

text \<open>
  A read with a name that the code itself writes (\<open>data.markdown\<close>, \<open>result.result\<close>,
  \<open>lastOutput?.url\<close>, \<open>results?.[0]\<close>) or with an index. None of these names is a member
  of a prototype or of a built-in object, so the read finds the own property or nothing.
\<close>

definition jsGet :: "jsval \<Rightarrow> string \<Rightarrow> exn + jsval" where
  \<comment> \<open>\<open>v.k\<close>: a \<open>TypeError\<close> on \<open>null\<close> and \<open>undefined\<close>\<close>
  "jsGet v k = (if nullish v then Inl (typeError v k) else Inr (getOwn v k))"

definition jsGetOpt :: "jsval \<Rightarrow> string \<Rightarrow> jsval" where
  \<comment> \<open>\<open>v?.k\<close>, \<open>v?.[index]\<close>\<close>
  "jsGetOpt v k = (if nullish v then JUndefined else getOwn v k)"

text \<open>
  A read with a name that the caller chooses (\<open>data[field]\<close>, \<open>current[arrayName]\<close>,
  \<open>current?.[part]\<close>, \<open>mockConfig[nodeKey]\<close>) finds the own property if there is one and
  otherwise what the runtime finds along the prototype chain. What the runtime holds is
  not code of the executors: \<open>inherited\<close> is the member that a data value inherits
  under a name (\<open>undefined\<close> if none), \<open>builtinMember\<close> is the read of a property of a
  built-in object, where a getter may throw, and \<open>largeIndexKey\<close> is the property key of
  the number that \<open>parseInt\<close> gives for digits beyond the integers a number holds
  exactly.
\<close>

record js_runtime =
  inherited :: "jsval \<Rightarrow> string \<Rightarrow> jsval"
  builtinMember :: "builtin \<Rightarrow> string \<Rightarrow> exn + jsval"
  largeIndexKey :: "string \<Rightarrow> string"

definition readData :: "js_runtime \<Rightarrow> jsval \<Rightarrow> string \<Rightarrow> jsval" where
  \<comment> \<open>\<open>v[k]\<close> for a data value \<open>v\<close>: own first, then inherited\<close>
  "readData rt v k = (if hasOwn v k then getOwn v k else inherited rt v k)"

definition readMember :: "js_runtime \<Rightarrow> jsval \<Rightarrow> string \<Rightarrow> exn + jsval" where
  \<comment> \<open>\<open>v[k]\<close> for any \<open>v\<close> but \<open>null\<close> and \<open>undefined\<close>\<close>
  "readMember rt v k =
     (case v of
        JBuiltin b \<Rightarrow> builtinMember rt b k
      | _ \<Rightarrow> Inr (readData rt v k))"

definition jsRead :: "js_runtime \<Rightarrow> jsval \<Rightarrow> string \<Rightarrow> exn + jsval" where
  \<comment> \<open>\<open>v[k]\<close>: a \<open>TypeError\<close> on \<open>null\<close> and \<open>undefined\<close>\<close>
  "jsRead rt v k = (if nullish v then Inl (typeError v k) else readMember rt v k)"

definition jsReadOpt :: "js_runtime \<Rightarrow> jsval \<Rightarrow> string \<Rightarrow> exn + jsval" where
  \<comment> \<open>\<open>v?.[k]\<close>\<close>
  "jsReadOpt rt v k = (if nullish v then Inr JUndefined else readMember rt v k)"

definition indexKey :: "js_runtime \<Rightarrow> string \<Rightarrow> string" where
  \<comment> \<open>the property key of \<open>parseInt(index)\<close>\<close>
  "indexKey rt ds =
     (if parseInt ds < 2 ^ 53 then canonIndex ds else largeIndexKey rt ds)"

section \<open>Field extraction (mcp.ts)\<close>

definition arrayMatch :: "string \<Rightarrow> (string \<times> string) option" where
  \<comment> \<open>\<open>part.match(/^(\w+)\[(\d+)\]$/)\<close>: the array name and the index digits\<close>
  "arrayMatch part =
     (let arrayName = takeWhile isWord part; rest = dropWhile isWord part in
      (case rest of
         [] \<Rightarrow> None
       | c # r \<Rightarrow>
           (if arrayName \<noteq> [] \<and> c = CHR ''['' \<and> r \<noteq> [] \<and> last r = CHR '']''
               \<and> butlast r \<noteq> [] \<and> list_all isDigit (butlast r)
            then Some (arrayName, butlast r)
            else None)))"

fun walkParts :: "js_runtime \<Rightarrow> jsval \<Rightarrow> string list \<Rightarrow> exn + jsval" where
  \<comment> \<open>the \<open>for (const part of parts)\<close> loop of \<open>getNestedValue\<close>\<close>
  "walkParts rt current [] = Inr current"
| "walkParts rt current (part # parts) =
     (case arrayMatch part of
        Some (arrayName, index) \<Rightarrow>
          (case jsRead rt current arrayName of
             Inl e \<Rightarrow> Inl e
           | Inr a \<Rightarrow>
               (let c = jsGetOpt a (indexKey rt index) in
                if c = JUndefined then Inr c else walkParts rt c parts))
      | None \<Rightarrow>
          (case jsReadOpt rt current part of
             Inl e \<Rightarrow> Inl e
           | Inr c \<Rightarrow> if c = JUndefined then Inr c else walkParts rt c parts))"

definition getNestedValue :: "js_runtime \<Rightarrow> jsval \<Rightarrow> string \<Rightarrow> exn + jsval" where
  "getNestedValue rt obj path = walkParts rt obj (split_on CHR ''.'' path)"

definition extractField ::
  "js_runtime \<Rightarrow> jsval \<Rightarrow> string \<Rightarrow> string option \<Rightarrow> exn + jsval" where
  "extractField rt data field customPath =
     (if field = ''full'' then Inr data
      else if field = ''custom'' \<and> customPath \<noteq> None \<and> customPath \<noteq> Some []
        then getNestedValue rt data (the customPath)
      else if field = ''markdown''
        then bindE (jsGet data ''markdown'') (\<lambda>m. Inr (js_or m data))
      else if field = ''html''
        then bindE (jsGet data ''html'') (\<lambda>h. Inr (js_or h data))
      else if field = ''metadata''
        then bindE (jsGet data ''metadata'') (\<lambda>m. Inr (js_or m (JObj [])))
      else if field = ''results''
        then bindE (jsGet data ''results'') (\<lambda>r. Inr (js_or r data))
      else if field = ''urls''
        then bindE (jsGet data ''results'') (\<lambda>results.
               (case results of
                  JArr rs \<Rightarrow> bindE (mapE (\<lambda>r. jsGet r ''url'') rs) (\<lambda>us. Inr (JArr us))
                | _ \<Rightarrow>
                    (if isArray (getOwn data ''urls'') then Inr (getOwn data ''urls'')
                     else if isArray (getOwn data ''links'') then Inr (getOwn data ''links'')
                     else Inr data)))
      else if field = ''first''
        then bindE (jsGet data ''results'') (\<lambda>results.
               Inr (js_or (jsGetOpt results ''0'') (js_or (getOwn data ''0'') data)))
      else if field = ''json''
        then bindE (jsGet data ''json'') (\<lambda>j. Inr (js_or j (js_or (getOwn data ''data'') data)))
      else bindE (jsRead rt data field) (\<lambda>v. Inr (js_or v data)))"

section \<open>Workflow data (types.ts, as the executors use it)\<close>

text \<open>
  A resolved tool server has a name and an endpoint; the agent executor also reads the
  other fields when it offers the server to a model as a tool. The node payload
  \<open>data\<close> is free-form in the source; each field below is one the executors read,
  with the type they read it at. An absent field is \<open>None\<close>; an absent flag is
  \<open>False\<close>. The state always has its \<open>variables\<close> and its \<open>chatHistory\<close>.
\<close>

record server_config =
  name :: string
  url :: string
  toolName :: "string option"
  description :: "string option"
  authToken :: "string option"
  accessToken :: "string option"
  schema :: jsval

record http_header =
  key :: "string option"
  val :: "string option"

record node_data =
  nodeName :: "string option"
  instructions :: "string option"
  model :: "string option"
  includeChatHistory :: bool
  outputFormat :: "string option"
  mcpServers :: "server_config list option"
  mcpServerId :: "string option"
  mcpAction :: "string option"
  scrapeUrl :: "string option"
  mapUrl :: "string option"
  crawlUrl :: "string option"
  searchQuery :: "string option"
  searchLimit :: "int option"
  crawlLimit :: "int option"
  useJsonMode :: bool
  outputField :: "string option"
  customOutputPath :: "string option"
  httpUrl :: "string option"
  httpMethod :: "string option"
  httpHeaders :: "http_header list option"
  httpAuthType :: "string option"
  httpAuthToken :: "string option"
  httpBody :: "string option"

record workflow_node =
  node_id :: string
  data :: node_data

record chat_message =
  role :: string
  content :: string

record workflow_state =
  variables :: "(string \<times> jsval) list"
  chatHistory :: "chat_message list"

type_synonym process_env = "string \<Rightarrow> string option"

definition truthyStr :: "string option \<Rightarrow> bool" where
  \<comment> \<open>truthiness of an optional string: present and not empty\<close>
  "truthyStr x = (case x of None \<Rightarrow> False | Some s \<Rightarrow> s \<noteq> [])"

definition orStr :: "string option \<Rightarrow> string option \<Rightarrow> string option" where
  \<comment> \<open>\<open>a || b\<close> on optional strings\<close>
  "orStr a b = (if truthyStr a then a else b)"

definition strOrDefault :: "string option \<Rightarrow> string \<Rightarrow> string" where
  \<comment> \<open>\<open>a || 'literal'\<close>\<close>
  "strOrDefault a d = (case a of None \<Rightarrow> d | Some s \<Rightarrow> if s = [] then d else s)"

definition numOrDefault :: "int option \<Rightarrow> int \<Rightarrow> int" where
  \<comment> \<open>\<open>n || literal\<close> on an optional number\<close>
  "numOrDefault a d = (case a of None \<Rightarrow> d | Some n \<Rightarrow> if n = 0 then d else n)"

definition optStr :: "string option \<Rightarrow> jsval" where
  "optStr a = (case a of None \<Rightarrow> JUndefined | Some s \<Rightarrow> JStr s)"

definition strOf :: "jsval \<Rightarrow> string" where
  "strOf v = (case v of JStr s \<Rightarrow> s | _ \<Rightarrow> [])"

definition getVar :: "workflow_state \<Rightarrow> string \<Rightarrow> jsval" where
  \<comment> \<open>\<open>state.variables?.k\<close>\<close>
  "getVar st k = (case map_of (variables st) k of Some v \<Rightarrow> v | None \<Rightarrow> JUndefined)"

definition setLastOutput :: "jsval \<Rightarrow> workflow_state \<Rightarrow> workflow_state" where
  \<comment> \<open>\<open>state.variables.lastOutput = v\<close>\<close>
  "setLastOutput v st = st\<lparr>variables := AList.update ''lastOutput'' v (variables st)\<rparr>"

definition useFallback :: "process_env \<Rightarrow> bool" where
  \<comment> \<open>\<open>process.env.USE_FALLBACK_DATA === 'true' || process.env.DEMO_MODE !== 'false'\<close>\<close>
  "useFallback env = (env ''USE_FALLBACK_DATA'' = Some ''true'' \<or> env ''DEMO_MODE'' \<noteq> Some ''false'')"

section \<open>The remote-tool executor (mcp.ts)\<close>

text \<open>
  What the executors import and call but do not define. Common to the three: the
  runtime, variable substitution and the \<open>JSON\<close> built-ins (\<open>JSON.parse\<close> returns data
  or throws).
  For this executor: the tool-server resolver, the server's key configuration and the
  Firecrawl client, each call of which returns a value or throws.
\<close>

record common_externals =
  runtime :: js_runtime
  substituteVariables :: "string \<Rightarrow> workflow_state \<Rightarrow> string"
  JSON_parse :: "string \<Rightarrow> exn + jsval"
  JSON_stringify :: "jsval \<Rightarrow> string"

record mcp_externals = common_externals +
  resolveMCPServer :: "string \<Rightarrow> server_config option"
  serverFirecrawlKey :: "string option"
  firecrawl_scrape :: "string \<Rightarrow> bool \<Rightarrow> exn + jsval"
  firecrawl_search :: "string \<Rightarrow> int \<Rightarrow> exn + jsval"
  firecrawl_map :: "string \<Rightarrow> exn + jsval"
  firecrawl_crawl :: "string \<Rightarrow> int \<Rightarrow> exn + jsval"

definition isRepoChar :: "char \<Rightarrow> bool" where
  "isRepoChar c = (isAlnum c \<or> c = CHR ''-'')"

fun repoMatch :: "string \<Rightarrow> string option" where
  \<comment> \<open>the first match of \<open>/([a-zA-Z0-9-]+\/[a-zA-Z0-9-]+)/\<close>\<close>
  "repoMatch [] = None"
| "repoMatch (c # cs) =
     (let owner = takeWhile isRepoChar (c # cs); rest = dropWhile isRepoChar (c # cs) in
      if owner \<noteq> [] \<and> startsWith rest ''/'' \<and> takeWhile isRepoChar (tl rest) \<noteq> []
      then Some (owner @ ''/'' @ takeWhile isRepoChar (tl rest))
      else repoMatch cs)"

definition repoOrDefault :: "string \<Rightarrow> jsval" where
  "repoOrDefault inputText =
     (case repoMatch inputText of
        Some r \<Rightarrow> JStr r
      | None \<Rightarrow> JStr ''anthropics/anthropic-sdk-python'')"

definition executeGenericMCPServer ::
  "mcp_externals \<Rightarrow> server_config \<Rightarrow> workflow_state \<Rightarrow> exn + jsval" where
  "executeGenericMCPServer w serverConfig st =
     (let input = js_or (getVar st ''input'') (getVar st ''lastOutput'');
          serverName = toLowerCase (name serverConfig) in
      if str_includes serverName ''deepwiki'' \<or> str_includes serverName ''devin'' then
        (if input = JUndefined then Inl (typeError JUndefined ''includes'')
         else
           (let inputText = (if isString input then strOf input else JSON_stringify w input);
                tool =
                  (if str_includes inputText ''wiki structure'' \<or> str_includes inputText ''topics''
                   then ''read_wiki_structure''
                   else if str_includes inputText ''wiki content''
                           \<or> str_includes inputText ''documentation''
                   then ''read_wiki_contents''
                   else ''ask_question'');
                params =
                  (if tool = ''ask_question''
                   then JObj [(''repository'', repoOrDefault inputText),
                              (''question'', JStr inputText)]
                   else JObj [(''repository'', repoOrDefault inputText)])
            in Inr (JObj
                 [(''tool'', JStr tool),
                  (''data'', JObj
                     [(''server'', JStr ''DeepWiki''),
                      (''tool'', JStr tool),
                      (''params'', params),
                      (''note'', JStr ''DeepWiki MCP execution is not yet implemented. This is a placeholder response.''),
                      (''input'', JStr inputText),
                      (''suggestedImplementation'',
                         JStr (''Call the DeepWiki MCP server API at '' @ url serverConfig))])])))
      else Inl (Error (''MCP server '' @ [CHR 0x22] @ name serverConfig @ [CHR 0x22]
                       @ '' execution not yet implemented. Server URL: '' @ url serverConfig)))"

definition getUrl :: "mcp_externals \<Rightarrow> node_data \<Rightarrow> workflow_state \<Rightarrow> string" where
  "getUrl w nodeData st =
     (let explicitUrl = orStr (orStr (scrapeUrl nodeData) (mapUrl nodeData)) (crawlUrl nodeData);
          substituted = substituteVariables w (the explicitUrl) st;
          lastOutput = getVar st ''lastOutput'';
          input = getVar st ''input'' in
      if truthyStr explicitUrl \<and> substituted \<noteq> [] \<and> startsWith substituted ''http''
        then substituted
      else if isString lastOutput \<and> startsWith (strOf lastOutput) ''http''
        then strOf lastOutput
      else if truthy (jsGetOpt lastOutput ''url'') \<and> isString (jsGetOpt lastOutput ''url'')
        then strOf (jsGetOpt lastOutput ''url'')
      else if isString input \<and> startsWith (strOf input) ''http''
        then strOf input
      else ''https://example.com'')"

definition getSearchQuery :: "mcp_externals \<Rightarrow> node_data \<Rightarrow> workflow_state \<Rightarrow> string" where
  "getSearchQuery w nodeData st =
     (let substituted = substituteVariables w (the (searchQuery nodeData)) st;
          lastOutput = getVar st ''lastOutput'';
          input = getVar st ''input'' in
      if truthyStr (searchQuery nodeData) \<and> substituted \<noteq> []
        then substituted
      else if isString lastOutput \<and> \<not> startsWith (strOf lastOutput) ''http''
        then strOf lastOutput
      else if isString input \<and> \<not> startsWith (strOf input) ''http''
        then strOf input
      else ''latest tech news'')"

definition fallbackStock :: jsval where
  "fallbackStock =
     JObj [(''web'', JArr
       [JObj [(''url'', JStr ''https://finance.yahoo.com/quote/NVDA''),
          (''title'', JStr ''NVIDIA Corporation (NVDA) - Yahoo Finance''),
          (''description'', JStr ''NVIDIA Corporation (NVDA) stock quote, history, news and other vital information. Current price: $150.25 | Change: +$2.50 (+1.69%) | Market Cap: $3.7T | P/E Ratio: 75.2 | 52 Week High: $180.00 | 52 Week Low: $39.23''),
          (''position'', JNum 1)],
        JObj [(''url'', JStr ''https://finance.yahoo.com/news/nvidia-stock-analysis''),
          (''title'', JStr ''NVIDIA Stock Analysis and Latest News''),
          (''description'', JStr ''Latest news: Strong earnings report, AI chip demand continues to grow. Analysts maintain buy rating with price target of $200.''),
          (''position'', JNum 2)],
        JObj [(''url'', JStr ''https://finance.yahoo.com/quote/NVDA/key-statistics''),
          (''title'', JStr ''NVIDIA Key Statistics''),
          (''description'', JStr ''Trading volume: 45.2M | Beta: 1.68 | EPS: $2.00 | Dividend: $0.16 | Ex-dividend date: 2025-03-05''),
          (''position'', JNum 3)]])]"

definition fallbackAmazon :: jsval where
  "fallbackAmazon =
     JObj [(''web'', JArr
       [JObj [(''url'', JStr ''https://www.amazon.com/dp/B08XYZ1234''),
          (''title'', JStr ''Logitech MX Master 3S Wireless Mouse - Amazon''),
          (''description'', JStr ''Price: $99.99 | Rating: 4.7/5 stars (12,345 reviews) | Features: Ergonomic design, 7,000 DPI sensor, 70-day battery, USB-C charging, multi-device connectivity''),
          (''position'', JNum 1)],
        JObj [(''url'', JStr ''https://www.amazon.com/dp/B09ABC5678''),
          (''title'', JStr ''Razer DeathAdder V3 Pro Wireless Gaming Mouse''),
          (''description'', JStr ''Price: $149.99 | Rating: 4.6/5 stars (8,901 reviews) | Features: 30,000 DPI sensor, 90-hour battery, lightweight 63g design, optical switches''),
          (''position'', JNum 2)],
        JObj [(''url'', JStr ''https://www.amazon.com/dp/B07DEF4567''),
          (''title'', JStr ''Apple Magic Mouse - Wireless Mouse''),
          (''description'', JStr ''Price: $79.00 | Rating: 4.2/5 stars (5,678 reviews) | Features: Multi-touch surface, rechargeable battery, seamless integration with Mac''),
          (''position'', JNum 3)]])]"

definition fallbackGeneric :: jsval where
  "fallbackGeneric =
     JObj [(''web'', JArr
       [JObj [(''url'', JStr ''https://techcrunch.com/2025/01/ai-trends-2025''),
          (''title'', JStr ''Top AI Trends Shaping 2025: What to Watch''),
          (''description'', JStr ''Key trends include multimodal AI models, agentic AI systems, edge AI deployment, and AI safety regulations. Industry experts predict significant growth in AI adoption across sectors.''),
          (''position'', JNum 1)],
        JObj [(''url'', JStr ''https://www.mckinsey.com/ai-trends-2025''),
          (''title'', JStr ''AI Trends 2025: Market Analysis and Predictions''),
          (''description'', JStr ''Market research shows AI spending will reach $200B by 2025. Key areas: generative AI tools, AI-powered automation, and AI-enhanced decision-making systems.''),
          (''position'', JNum 2)],
        JObj [(''url'', JStr ''https://venturebeat.com/ai/ai-trends-2025''),
          (''title'', JStr ''The Future of AI: 10 Trends to Watch in 2025''),
          (''description'', JStr ''Experts highlight trends in AI governance, responsible AI development, AI-native applications, and the convergence of AI with other emerging technologies.''),
          (''position'', JNum 3)],
        JObj [(''url'', JStr ''https://www.gartner.com/ai-trends-2025''),
          (''title'', JStr ''Gartner AI Trends Report 2025''),
          (''description'', JStr ''Gartner identifies key AI trends: AI democratization, AI trust and transparency, AI-augmented development, and the rise of composite AI architectures.''),
          (''position'', JNum 4)],
        JObj [(''url'', JStr ''https://www.forbes.com/ai-trends-2025''),
          (''title'', JStr ''AI in 2025: What Business Leaders Need to Know''),
          (''description'', JStr ''Business-focused analysis of AI trends including ROI metrics, AI integration strategies, and the impact of AI on workforce productivity and business models.''),
          (''position'', JNum 5)]])]"

definition generateFallbackSearchResults :: "string \<Rightarrow> jsval" where
  "generateFallbackSearchResults query =
     (let queryLower = toLowerCase query;
          isStock = (str_includes queryLower ''stock'' \<or> str_includes queryLower ''yahoo finance''
                     \<or> str_includes queryLower ''ticker'');
          isAmazon = (str_includes queryLower ''amazon'' \<or> str_includes queryLower ''product'')
      in if isStock then fallbackStock
         else if isAmazon then fallbackAmazon
         else fallbackGeneric)"

definition extractOutput :: "js_runtime \<Rightarrow> node_data \<Rightarrow> jsval \<Rightarrow> exn + jsval" where
  \<comment> \<open>\<open>outputData\<close>: the configured field of the result, or the whole result\<close>
  "extractOutput rt nodeData result =
     (if truthyStr (outputField nodeData) \<and> outputField nodeData \<noteq> Some ''full''
      then extractField rt result (the (outputField nodeData)) (customOutputPath nodeData)
      else Inr result)"

definition firecrawlCall ::
  "mcp_externals \<Rightarrow> node_data \<Rightarrow> workflow_state \<Rightarrow> string \<Rightarrow> exn + jsval" where
  \<comment> \<open>the \<open>switch (action)\<close> of the \<open>try\<close> block\<close>
  "firecrawlCall w nodeData st action =
     (if action = ''scrape''
        then firecrawl_scrape w (getUrl w nodeData st) (useJsonMode nodeData)
      else if action = ''search''
        then firecrawl_search w (getSearchQuery w nodeData st)
               (numOrDefault (searchLimit nodeData) 5)
      else if action = ''map''
        then firecrawl_map w (getUrl w nodeData st)
      else if action = ''crawl''
        then firecrawl_crawl w (getUrl w nodeData st) (numOrDefault (crawlLimit nodeData) 10)
      else Inl (Error (''Unknown Firecrawl action: '' @ action)))"

definition firecrawlTry ::
  "mcp_externals \<Rightarrow> node_data \<Rightarrow> workflow_state \<Rightarrow> string \<Rightarrow> (exn + jsval) \<times> workflow_state"
  where
  \<comment> \<open>the \<open>try\<close> block: the call, the extraction, the write to the state, the result\<close>
  "firecrawlTry w nodeData st action =
     (case firecrawlCall w nodeData st action of
        Inl e \<Rightarrow> (Inl e, st)
      | Inr result \<Rightarrow>
          (case extractOutput (runtime w) nodeData result of
             Inl e \<Rightarrow> (Inl e, st)
           | Inr outputData \<Rightarrow>
               (let st' = setLastOutput outputData st in
                (Inr (JObj
                   [(''results'', JArr [JObj
                       [(''server'', JStr ''Firecrawl''),
                        (''tool'', JStr action),
                        (''success'', JBool True),
                        (''data'', result)]]),
                    (''extractedField'', optStr (outputField nodeData)),
                    (''output'', outputData),
                    (''mcpServers'', JArr [JStr ''Firecrawl'']),
                    (''toolCalls'', JArr [JObj
                       [(''name'', JStr (''firecrawl_'' @ action)),
                        (''arguments'', JObj
                           [(''action'', JStr action),
                            (''url'', JStr (getUrl w nodeData st')),
                            (''query'', JStr (getSearchQuery w nodeData st'))]),
                        (''output'', result)]])]),
                 st'))))"

definition firecrawlCatch ::
  "mcp_externals \<Rightarrow> process_env \<Rightarrow> node_data \<Rightarrow> workflow_state \<Rightarrow> string \<Rightarrow> exn
     \<Rightarrow> (exn + jsval) \<times> workflow_state" where
  \<comment> \<open>the \<open>catch\<close> block\<close>
  "firecrawlCatch w env nodeData st action error =
     (if useFallback env \<and> action = ''search'' then
        (let query = getSearchQuery w nodeData st;
             fallbackResults = generateFallbackSearchResults query in
         case extractOutput (runtime w) nodeData fallbackResults of
           Inl e \<Rightarrow> (Inl e, st)
         | Inr outputData \<Rightarrow>
             (Inr (JObj
                [(''results'', JArr [JObj
                    [(''server'', JStr ''Firecrawl''),
                     (''tool'', JStr action),
                     (''success'', JBool False),
                     (''error'', JStr ''Using fallback data''),
                     (''data'', fallbackResults)]]),
                 (''extractedField'', optStr (outputField nodeData)),
                 (''output'', outputData),
                 (''mcpServers'', JArr [JStr ''Firecrawl'']),
                 (''toolCalls'', JArr [JObj
                    [(''name'', JStr (''firecrawl_'' @ action)),
                     (''arguments'', JObj [(''action'', JStr action), (''query'', JStr query)]),
                     (''output'', fallbackResults)]]),
                 (''_fallback'', JBool True)]),
              setLastOutput outputData st))
      else (Inl (Error (''Firecrawl '' @ action @ '' failed: '' @ errorMessage error)), st))"

definition executeFirecrawl ::
  "mcp_externals \<Rightarrow> process_env \<Rightarrow> node_data \<Rightarrow> workflow_state
     \<Rightarrow> (exn + jsval) \<times> workflow_state" where
  \<comment> \<open>the body of the loop for a server whose name contains \<open>firecrawl\<close>\<close>
  "executeFirecrawl w env nodeData st =
     (if \<not> truthyStr (serverFirecrawlKey w) then
        (Inl (Error (''FIRECRAWL_API_KEY not configured. Add it to your .env.local file:''
                     @ [CHR 0x0A] @ ''FIRECRAWL_API_KEY=your_key_here'')), st)
      else
        (let action = strOrDefault (mcpAction nodeData) ''scrape'' in
         case firecrawlTry w nodeData st action of
           (Inr r, st') \<Rightarrow> (Inr r, st')
         | (Inl error, st') \<Rightarrow> firecrawlCatch w env nodeData st' action error))"

definition genericStep ::
  "mcp_externals \<Rightarrow> server_config \<Rightarrow> jsval list \<Rightarrow> workflow_state
     \<Rightarrow> jsval list \<times> workflow_state" where
  \<comment> \<open>the body of the loop for any other server: \<open>results\<close> and the state after it\<close>
  "genericStep w serverConfig results st =
     (case executeGenericMCPServer w serverConfig st of
        Inr result \<Rightarrow>
          (results @ [JObj [(''server'', JStr (name serverConfig)),
                            (''tool'', js_or (getOwn result ''tool'') (JStr ''unknown'')),
                            (''success'', JBool True),
                            (''data'', getOwn result ''data'')]],
           setLastOutput (getOwn result ''data'') st)
      | Inl error \<Rightarrow>
          (results @ [JObj [(''server'', JStr (name serverConfig)),
                            (''error'', JStr (errorMessage error)),
                            (''success'', JBool False)]],
           st))"

fun serverLoop ::
  "mcp_externals \<Rightarrow> process_env \<Rightarrow> node_data \<Rightarrow> server_config list \<Rightarrow> jsval list
     \<Rightarrow> workflow_state \<Rightarrow> server_config list \<Rightarrow> (exn + jsval) \<times> workflow_state" where
  \<comment> \<open>\<open>for (const serverConfig of mcpServers)\<close>, \<open>results\<close> collected so far, and the
      final \<open>return\<close>\<close>
  "serverLoop w env nodeData all results st [] =
     (Inr (JObj [(''results'', JArr results),
                 (''mcpServers'', JArr (map (\<lambda>s. JStr (name s)) all))]), st)"
| "serverLoop w env nodeData all results st (serverConfig # rest) =
     (if str_includes (toLowerCase (name serverConfig)) ''firecrawl''
      then executeFirecrawl w env nodeData st
      else serverLoop w env nodeData all
             (fst (genericStep w serverConfig results st))
             (snd (genericStep w serverConfig results st)) rest)"

definition resolveServers :: "mcp_externals \<Rightarrow> node_data \<Rightarrow> server_config list" where
  \<comment> \<open>the inline list, replaced by the resolved server when the id resolves\<close>
  "resolveServers w nodeData =
     (let mcpServers0 = (case mcpServers nodeData of Some l \<Rightarrow> l | None \<Rightarrow> []) in
      if truthyStr (mcpServerId nodeData) then
        (case resolveMCPServer w (the (mcpServerId nodeData)) of
           Some resolvedServer \<Rightarrow> [resolvedServer]
         | None \<Rightarrow> mcpServers0)
      else mcpServers0)"

definition executeMCPNode ::
  "mcp_externals \<Rightarrow> process_env \<Rightarrow> workflow_node \<Rightarrow> workflow_state
     \<Rightarrow> (exn + jsval) \<times> workflow_state" where
  "executeMCPNode w env node st =
     (let nodeData = data node; mcpServers1 = resolveServers w nodeData in
      if mcpServers1 = [] then
        (Inr (JObj [(''error'', JStr ''No MCP servers configured or could not resolve server'')]),
         st)
      else serverLoop w env nodeData mcpServers1 [] st mcpServers1)"

section \<open>The agent executor (agent.ts)\<close>

record api_keys =
  anthropic :: "string option"
  groq :: "string option"
  openai :: "string option"
  firecrawl :: "string option"
  gemini :: "string option"
  aimlapi :: "string option"

text \<open>\<open>LLMUsage\<close>: every field optional; token counts are integers.\<close>

record llm_usage =
  input_tokens :: "int option"
  output_tokens :: "int option"
  total_tokens :: "int option"
  prompt_tokens :: "int option"
  completion_tokens :: "int option"

text \<open>A chat completion of the OpenAI client, as far as the executor reads it.\<close>

record tool_call =
  call_id :: string
  function_name :: string
  function_arguments :: string

record assistant_message =
  message_content :: "string option"
  tool_calls :: "tool_call list option"

record tool_result =
  tool_call_id :: string
  result_content :: string

record chat_completion =
  choices :: "assistant_message list"
  usage :: "llm_usage option"

datatype transcript_entry =
    Turn chat_message
  | AssistantTurn assistant_message
  | ToolTurn tool_result

text \<open>What a provider branch leaves in \<open>responseText\<close>, \<open>usage\<close> and \<open>toolCalls\<close>.\<close>

record provider_outcome =
  responseText :: string
  finalUsage :: llm_usage
  toolCalls :: "jsval list"

record migrated_data =
  mcpTools :: "server_config list option"
  mcpServerIds :: "string list option"

text \<open>
  The canned responses of the fallback are long literal texts with one interpolated
  value at most. A template names the text and carries the value; the text itself is
  \<open>fallbackText\<close> below.
\<close>

datatype fallback_template =
    AnalysisTicker jsval
  | AnalysisProduct jsval
  | AnalysisResearch jsval
  | AnalysisGeneric
  | ExecutiveSummary
  | StockReport jsval
  | Recommendation jsval
  | ProductExtract
  | DemoNote

text \<open>
  What the executor calls but does not define. The legacy-format migrator and the
  resolver are total functions. A provider branch other than OpenAI's tool loop is one
  function: its client calls and the reshaping of the response either throw or assign
  the three variables of a \<open>provider_outcome\<close>. Each takes the key, the model name and
  the messages. OpenAI's tool loop is modelled call by call: \<open>openai_chat_completions\<close>
  is \<open>client.chat.completions.create\<close> (the transcript, and the tools when offered),
  \<open>mcp_tools_call\<close> is the JSON-RPC \<open>tools/call\<close> POST to a server followed by
  \<open>response.json()\<close>.
\<close>

record agent_externals = common_externals +
  migrateMCPData :: "node_data \<Rightarrow> migrated_data"
  resolveMCPServers :: "string list \<Rightarrow> server_config list"
  anthropic_with_mcp ::
    "string \<Rightarrow> string \<Rightarrow> chat_message list \<Rightarrow> server_config list \<Rightarrow> string option
       \<Rightarrow> exn + provider_outcome"
  anthropic_plain :: "string \<Rightarrow> string \<Rightarrow> chat_message list \<Rightarrow> exn + provider_outcome"
  openai_chat_completions ::
    "string \<Rightarrow> string \<Rightarrow> transcript_entry list \<Rightarrow> jsval list option \<Rightarrow> exn + chat_completion"
  mcp_tools_call :: "server_config \<Rightarrow> string \<Rightarrow> jsval \<Rightarrow> exn + jsval"
  openai_langchain :: "string \<Rightarrow> string \<Rightarrow> chat_message list \<Rightarrow> exn + provider_outcome"
  groq_responses ::
    "string \<Rightarrow> string \<Rightarrow> chat_message list \<Rightarrow> server_config list \<Rightarrow> exn + provider_outcome"
  groq_langchain :: "string \<Rightarrow> string \<Rightarrow> chat_message list \<Rightarrow> exn + provider_outcome"
  gemini_generate :: "string \<Rightarrow> string \<Rightarrow> chat_message list \<Rightarrow> exn + provider_outcome"
  aimlapi_chat :: "string \<Rightarrow> string \<Rightarrow> chat_message list \<Rightarrow> exn + provider_outcome"
  fallbackText :: "fallback_template \<Rightarrow> string"

record agent_result =
  agentValue :: jsval
  agentToolCalls :: "jsval list"
  chatHistoryUpdates :: "chat_message list"
  variableUpdates :: "(string \<times> jsval) list"
  fallbackFlag :: bool

subsection \<open>The mock response\<close>

definition mockLookup :: "js_runtime \<Rightarrow> jsval \<Rightarrow> workflow_node \<Rightarrow> jsval" where
  \<comment> \<open>\<open>mockConfig[nodeKey] ?? (nodeName ? mockConfig[nodeName] : undefined)
        ?? mockConfig.default ?? mockOutput\<close>, on the data that \<open>JSON.parse\<close> returned\<close>
  "mockLookup rt mockConfig node =
     js_coalesce
       (js_coalesce
          (js_coalesce (readData rt mockConfig (node_id node))
             (if truthyStr (nodeName (data node))
              then readData rt mockConfig (the (nodeName (data node)))
              else JUndefined))
          (getOwn mockConfig ''default''))
       mockConfig"

definition chatUpdates :: "node_data \<Rightarrow> string \<Rightarrow> chat_message list" where
  \<comment> \<open>the two turns proposed for the history, when the node includes it\<close>
  "chatUpdates nodeData answer =
     (if includeChatHistory nodeData
      then [\<lparr>role = ''user'', content = strOrDefault (instructions nodeData) ''''\<rparr>,
            \<lparr>role = ''assistant'', content = answer\<rparr>]
      else [])"

definition mockResponse ::
  "'a common_externals_scheme \<Rightarrow> process_env \<Rightarrow> workflow_node \<Rightarrow> agent_result option" where
  \<comment> \<open>\<open>if (process.env.MOCK_AGENT_RESPONSE) { ... }\<close>: the result returned there, if any\<close>
  "mockResponse w env node =
     (if truthyStr (env ''MOCK_AGENT_RESPONSE'') then
        (let raw = the (env ''MOCK_AGENT_RESPONSE'');
             mockConfig = (case JSON_parse w raw of Inr v \<Rightarrow> v | Inl e \<Rightarrow> JStr raw);
             mockOutput = (if truthy mockConfig \<and> isObjectType mockConfig
                           then mockLookup (runtime w) mockConfig node
                           else mockConfig)
         in if mockOutput \<noteq> JUndefined then
              Some \<lparr>agentValue = mockOutput,
                    agentToolCalls = [],
                    chatHistoryUpdates =
                      chatUpdates (data node)
                        (if isString mockOutput then strOf mockOutput
                         else JSON_stringify w mockOutput),
                    variableUpdates = [(''lastOutput'', mockOutput)],
                    fallbackFlag = False\<rparr>
            else None)
      else None)"

subsection \<open>Provider dispatch\<close>

definition parseModel :: "string \<Rightarrow> string \<times> string" where
  \<comment> \<open>the provider before the first slash and the model name after it\<close>
  "parseModel modelString =
     (if CHR ''/'' \<in> set modelString
      then (takeWhile (\<lambda>c. c \<noteq> CHR ''/'') modelString,
            tl (dropWhile (\<lambda>c. c \<noteq> CHR ''/'') modelString))
      else (''openai'', modelString))"

definition tokenCount :: "int option \<Rightarrow> int" where
  \<comment> \<open>\<open>n || 0\<close>\<close>
  "tokenCount n = (case n of None \<Rightarrow> 0 | Some k \<Rightarrow> k)"

definition emptyUsage :: llm_usage where
  \<comment> \<open>\<open>{}\<close>\<close>
  "emptyUsage =
     \<lparr>input_tokens = None, output_tokens = None, total_tokens = None,
      prompt_tokens = None, completion_tokens = None\<rparr>"

definition usageOrEmpty :: "llm_usage option \<Rightarrow> llm_usage" where
  \<comment> \<open>\<open>response.usage || {}\<close>\<close>
  "usageOrEmpty u = (case u of None \<Rightarrow> emptyUsage | Some x \<Rightarrow> x)"

definition addUsage :: "llm_usage \<Rightarrow> llm_usage option \<Rightarrow> llm_usage" where
  \<comment> \<open>the assignment to \<open>usage\<close> after the second call; \<open>final\<close> is
      \<open>finalResponse.usage\<close>\<close>
  "addUsage u final =
     u\<lparr>prompt_tokens :=
         Some (tokenCount (prompt_tokens u)
               + tokenCount (case final of None \<Rightarrow> None | Some f \<Rightarrow> prompt_tokens f)),
       completion_tokens :=
         Some (tokenCount (completion_tokens u)
               + tokenCount (case final of None \<Rightarrow> None | Some f \<Rightarrow> completion_tokens f)),
       total_tokens :=
         Some (tokenCount (total_tokens u)
               + tokenCount (case final of None \<Rightarrow> None | Some f \<Rightarrow> total_tokens f))\<rparr>"

definition toolLabel :: "server_config \<Rightarrow> string option" where
  \<comment> \<open>\<open>mcp.name || mcp.toolName\<close>\<close>
  "toolLabel mcp = orStr (Some (name mcp)) (toolName mcp)"

definition openaiTool :: "server_config \<Rightarrow> jsval" where
  \<comment> \<open>an MCP tool in OpenAI's function format\<close>
  "openaiTool mcp =
     JObj [(''type'', JStr ''function''),
           (''function'', JObj
              [(''name'', JStr (strOrDefault (toolLabel mcp) ''unknown_tool'')),
               (''description'', JStr (strOrDefault (description mcp) ''No description'')),
               (''parameters'', JObj
                  [(''type'', JStr ''object''),
                   (''properties'', js_or (jsGetOpt (schema mcp) ''properties'') (JObj [])),
                   (''required'', js_or (jsGetOpt (schema mcp) ''required'') (JArr []))])])]"

definition runToolCall ::
  "agent_externals \<Rightarrow> server_config list \<Rightarrow> tool_call \<Rightarrow> exn + string" where
  \<comment> \<open>the \<open>try\<close> block of one tool call: the content of its tool message\<close>
  "runToolCall w tools call =
     (case find (\<lambda>m. toolLabel m = Some (function_name call)) tools of
        None \<Rightarrow> Inl (Error (''MCP server not found for tool: '' @ function_name call))
      | Some mcpServer \<Rightarrow>
          bindE (JSON_parse w (function_arguments call)) (\<lambda>args.
          bindE (mcp_tools_call w mcpServer (function_name call) args) (\<lambda>result.
          bindE (jsGet result ''result'') (\<lambda>inner.
            Inr (JSON_stringify w (js_or inner result))))))"

definition executeToolCall ::
  "agent_externals \<Rightarrow> server_config list \<Rightarrow> tool_call \<Rightarrow> tool_result" where
  \<comment> \<open>one element of the \<open>Promise.all\<close>: a failure becomes an error payload\<close>
  "executeToolCall w tools call =
     \<lparr>tool_call_id = call_id call,
      result_content =
        (case runToolCall w tools call of
           Inr c \<Rightarrow> c
         | Inl error \<Rightarrow> JSON_stringify w (JObj [(''error'', JStr (errorMessage error))]))\<rparr>"

definition trackToolCall :: "agent_externals \<Rightarrow> tool_call \<times> tool_result \<Rightarrow> exn + jsval" where
  \<comment> \<open>one entry of \<open>toolCalls\<close>; \<open>JSON.parse\<close> is not guarded here\<close>
  "trackToolCall w p =
     (case p of (call, res) \<Rightarrow>
        bindE (JSON_parse w (function_arguments call)) (\<lambda>args.
        bindE (JSON_parse w (result_content res)) (\<lambda>out.
          Inr (JObj [(''id'', JStr (call_id call)),
                     (''name'', JStr (function_name call)),
                     (''arguments'', args),
                     (''output'', out)]))))"

definition firstChoice :: "chat_completion \<Rightarrow> exn + assistant_message" where
  \<comment> \<open>\<open>response.choices[0].message\<close>\<close>
  "firstChoice response =
     (case choices response of
        [] \<Rightarrow> Inl (typeError JUndefined ''message'')
      | m # ms \<Rightarrow> Inr m)"

definition openaiToolLoop ::
  "agent_externals \<Rightarrow> string \<Rightarrow> string \<Rightarrow> chat_message list \<Rightarrow> server_config list
     \<Rightarrow> exn + provider_outcome" where
  \<comment> \<open>the OpenAI branch when tools are configured\<close>
  "openaiToolLoop w apiKey modelName messages tools =
     bindE (openai_chat_completions w apiKey modelName (map Turn messages)
              (Some (map openaiTool tools))) (\<lambda>response.
     bindE (firstChoice response) (\<lambda>message.
       (let usage1 = usageOrEmpty (usage response) in
        if tool_calls message \<noteq> None \<and> tool_calls message \<noteq> Some [] then
          (let calls = the (tool_calls message);
               toolResults = map (executeToolCall w tools) calls in
           bindE (openai_chat_completions w apiKey modelName
                    (map Turn messages @ [AssistantTurn message] @ map ToolTurn toolResults)
                    None) (\<lambda>finalResponse.
           bindE (firstChoice finalResponse) (\<lambda>finalMessage.
           bindE (mapE (trackToolCall w) (zip calls toolResults)) (\<lambda>tracked.
             Inr \<lparr>responseText = strOrDefault (message_content finalMessage) '''',
                  finalUsage = addUsage usage1 (usage finalResponse),
                  toolCalls = tracked\<rparr>))))
        else
          Inr \<lparr>responseText = strOrDefault (message_content message) '''',
               finalUsage = usage1,
               toolCalls = []\<rparr>)))"

definition callProvider ::
  "agent_externals \<Rightarrow> api_keys \<Rightarrow> string \<Rightarrow> string \<Rightarrow> chat_message list
     \<Rightarrow> server_config list \<Rightarrow> exn + provider_outcome" where
  \<comment> \<open>the \<open>if\<close> chain on \<open>provider\<close> and the key of that provider\<close>
  "callProvider w apiKeys provider modelName messages tools =
     (if provider = ''anthropic'' \<and> truthyStr (anthropic apiKeys) then
        (if tools \<noteq> []
         then anthropic_with_mcp w (the (anthropic apiKeys)) modelName messages tools
                (firecrawl apiKeys)
         else anthropic_plain w (the (anthropic apiKeys)) modelName messages)
      else if provider = ''openai'' \<and> truthyStr (openai apiKeys) then
        (if tools \<noteq> []
         then openaiToolLoop w (the (openai apiKeys)) modelName messages tools
         else openai_langchain w (the (openai apiKeys)) modelName messages)
      else if provider = ''groq'' \<and> truthyStr (groq apiKeys) then
        (if tools \<noteq> []
         then groq_responses w (the (groq apiKeys)) modelName messages tools
         else groq_langchain w (the (groq apiKeys)) modelName messages)
      else if provider = ''gemini'' \<and> truthyStr (gemini apiKeys) then
        gemini_generate w (the (gemini apiKeys)) modelName messages
      else if provider = ''aimlapi'' \<and> truthyStr (aimlapi apiKeys) then
        aimlapi_chat w (the (aimlapi apiKeys)) modelName messages
      else Inl (Error (''No API key available for provider: '' @ provider)))"

subsection \<open>The executor\<close>

definition agentOutput :: "'a common_externals_scheme \<Rightarrow> node_data \<Rightarrow> string \<Rightarrow> jsval" where
  \<comment> \<open>the response text, parsed when the node asks for JSON and the text parses\<close>
  "agentOutput w nodeData text =
     (if outputFormat nodeData = Some ''JSON''
      then (case JSON_parse w text of Inr v \<Rightarrow> v | Inl e \<Rightarrow> JStr text)
      else JStr text)"

definition agentTry ::
  "agent_externals \<Rightarrow> process_env \<Rightarrow> workflow_node \<Rightarrow> workflow_state \<Rightarrow> api_keys option
     \<Rightarrow> exn + agent_result" where
  \<comment> \<open>the \<open>try\<close> block\<close>
  "agentTry w env node st apiKeys =
     (let nodeData = data node;
          instructions1 =
            substituteVariables w (strOrDefault (instructions nodeData) ''Process the input'') st;
          migratedData = migrateMCPData w nodeData;
          tools =
            (if mcpServerIds migratedData \<noteq> None \<and> mcpServerIds migratedData \<noteq> Some []
             then resolveMCPServers w (the (mcpServerIds migratedData))
             else (case mcpTools migratedData of Some l \<Rightarrow> l | None \<Rightarrow> []))
      in case apiKeys of
           None \<Rightarrow> Inl (Error ''API keys are required for server-side execution'')
         | Some keys \<Rightarrow>
             (case mockResponse w env node of
                Some r \<Rightarrow> Inr r
              | None \<Rightarrow>
                  (let messages =
                         (if includeChatHistory nodeData \<and> chatHistory st \<noteq> []
                          then chatHistory st @ [\<lparr>role = ''user'', content = instructions1\<rparr>]
                          else [\<lparr>role = ''user'', content = instructions1\<rparr>]);
                       modelString =
                         strOrDefault (model nodeData) ''anthropic/claude-sonnet-4-5-20250929'';
                       provider = fst (parseModel modelString);
                       modelName = snd (parseModel modelString)
                   in bindE (callProvider w keys provider modelName messages tools) (\<lambda>outcome.
                        (let output = agentOutput w nodeData (responseText outcome) in
                         Inr \<lparr>agentValue = output,
                              agentToolCalls = toolCalls outcome,
                              chatHistoryUpdates = chatUpdates nodeData (responseText outcome),
                              variableUpdates = [(''lastOutput'', output)],
                              fallbackFlag = False\<rparr>)))))"

definition inputHint :: "jsval \<Rightarrow> string \<Rightarrow> jsval" where
  \<comment> \<open>\<open>typeof input === 'object' ? (input.k || input.input?.k) : null\<close>\<close>
  "inputHint input k =
     (if isObjectType input
      then js_or (getOwn input k) (jsGetOpt (getOwn input ''input'') k)
      else JNull)"

definition fallbackTemplate :: "workflow_node \<Rightarrow> workflow_state \<Rightarrow> fallback_template" where
  \<comment> \<open>the choice among the canned responses, by the name of the node and the input\<close>
  "fallbackTemplate node st =
     (let nodeName1 =
            toLowerCase (strOrDefault (orStr (nodeName (data node)) (Some (node_id node))) '''');
          input = js_or (getVar st ''input'') (JObj []);
          ticker = inputHint input ''ticker'';
          product = inputHint input ''product'';
          researchTopic = inputHint input ''research_topic''
      in if str_includes nodeName1 ''gemini''
            \<or> (str_includes nodeName1 ''analysis'' \<and> \<not> str_includes nodeName1 ''recommend'')
         then (if truthy ticker then AnalysisTicker ticker
               else if truthy product then AnalysisProduct product
               else if truthy researchTopic then AnalysisResearch researchTopic
               else AnalysisGeneric)
         else if str_includes nodeName1 ''summary'' \<or> str_includes nodeName1 ''summarize''
                 \<or> (str_includes nodeName1 ''aimlapi'' \<and> str_includes nodeName1 ''summary'')
         then ExecutiveSummary
         else if str_includes nodeName1 ''report''
                 \<or> (str_includes nodeName1 ''write'' \<and> str_includes nodeName1 ''report'')
         then StockReport (js_or ticker (JStr ''Stock''))
         else if str_includes nodeName1 ''recommend''
                 \<or> str_includes nodeName1 ''analyze-recommend''
         then Recommendation (js_or product (JStr ''Product''))
         else if str_includes nodeName1 ''extract'' \<or> str_includes nodeName1 ''extract-product''
         then ProductExtract
         else DemoNote)"

definition agentCatch ::
  "agent_externals \<Rightarrow> process_env \<Rightarrow> workflow_node \<Rightarrow> workflow_state \<Rightarrow> exn
     \<Rightarrow> exn + agent_result" where
  \<comment> \<open>the \<open>catch\<close> block\<close>
  "agentCatch w env node st error =
     (let message = errorMessage error in
      if useFallback env then
        (let fallbackResponse = fallbackText w (fallbackTemplate node st) in
         Inr \<lparr>agentValue = JStr fallbackResponse,
              agentToolCalls = [],
              chatHistoryUpdates = chatUpdates (data node) fallbackResponse,
              variableUpdates = [(''lastOutput'', JStr fallbackResponse)],
              fallbackFlag = True\<rparr>)
      else if str_includes message ''API key'' \<or> str_includes message ''api_key''
        then Inl (Error ''Missing API key. Please add your LLM provider key in Settings.'')
      else if str_includes message ''rate limit'' \<or> str_includes message ''429''
        then Inl (Error ''Rate limited. Please wait a moment and try again.'')
      else if str_includes message ''No API key available''
        then Inl (Error ''No API key configured. Please add a Gemini, AI/ML API, Anthropic, OpenAI, or Groq API key in your .env.local file.'')
      else Inl (Error (''Agent execution failed: '' @ message)))"

definition executeAgentNode ::
  "agent_externals \<Rightarrow> process_env \<Rightarrow> workflow_node \<Rightarrow> workflow_state \<Rightarrow> api_keys option
     \<Rightarrow> (exn + agent_result) \<times> workflow_state" where
  \<comment> \<open>the outcome, and the state as the executor leaves it: no statement of the
      executor assigns to \<open>state\<close> or to what it refers to\<close>
  "executeAgentNode w env node st apiKeys =
     (case agentTry w env node st apiKeys of
        Inr r \<Rightarrow> (Inr r, st)
      | Inl error \<Rightarrow> (agentCatch w env node st error, st))"

section \<open>The HTTP executor\<close>

















section \<open>Notions used to state the properties\<close>

text \<open>
  Indexing by hand along a path, as one writes \<open>obj.a.b[1].c\<close>: every step is a plain
  property read, which throws on \<open>null\<close> and \<open>undefined\<close>.
\<close>

definition manualStep :: "js_runtime \<Rightarrow> jsval \<Rightarrow> string \<Rightarrow> exn + jsval" where
  "manualStep rt current part =
     (case arrayMatch part of
        Some (arrayName, index) \<Rightarrow>
          bindE (jsRead rt current arrayName) (\<lambda>a. jsGet a (indexKey rt index))
      | None \<Rightarrow> jsRead rt current part)"

fun manualIndex :: "js_runtime \<Rightarrow> jsval \<Rightarrow> string list \<Rightarrow> exn + jsval" where
  "manualIndex rt current [] = Inr current"
| "manualIndex rt current (part # parts) =
     bindE (manualStep rt current part) (\<lambda>c. manualIndex rt c parts)"

definition isFallbackData :: "jsval \<Rightarrow> bool" where
  \<comment> \<open>the shape of the synthetic search results: one non-empty \<open>web\<close> list\<close>
  "isFallbackData d = (\<exists>items. d = JObj [(''web'', JArr items)] \<and> items \<noteq> [])"

definition hasKey :: "jsval \<Rightarrow> string \<Rightarrow> bool" where
  \<comment> \<open>the object has the property, whatever its value\<close>
  "hasKey v k = (case v of JObj kvs \<Rightarrow> map_of kvs k \<noteq> None | _ \<Rightarrow> False)"

definition lastSuccessData :: "jsval list \<Rightarrow> jsval option" where
  \<comment> \<open>the \<open>data\<close> of the last entry of \<open>results\<close> with \<open>success: true\<close>\<close>
  "lastSuccessData results =
     (let succeeded = filter (\<lambda>e. getOwn e ''success'' = JBool True) results in
      if succeeded = [] then None else Some (getOwn (last succeeded) ''data''))"

definition afterGeneric ::
  "mcp_externals \<Rightarrow> server_config list \<Rightarrow> workflow_state \<Rightarrow> workflow_state" where
  \<comment> \<open>the state once the loop has gone through the generic servers \<open>pre\<close>\<close>
  "afterGeneric w pre st =
     snd (foldl (\<lambda>acc s. genericStep w s (fst acc) (snd acc)) ([], st) pre)"

definition keyFor :: "api_keys \<Rightarrow> string \<Rightarrow> string option" where
  \<comment> \<open>the key supplied for a provider, by the provider's name\<close>
  "keyFor apiKeys provider =
     (if provider = ''anthropic'' then anthropic apiKeys
      else if provider = ''openai'' then openai apiKeys
      else if provider = ''groq'' then groq apiKeys
      else if provider = ''gemini'' then gemini apiKeys
      else if provider = ''aimlapi'' then aimlapi apiKeys
      else None)"

definition requestedProvider :: "workflow_node \<Rightarrow> string" where
  \<comment> \<open>the provider that the model string of the node names\<close>
  "requestedProvider node =
     fst (parseModel (strOrDefault (model (data node)) ''anthropic/claude-sonnet-4-5-20250929''))"


definition proposesOnly :: "node_data \<Rightarrow> agent_result \<Rightarrow> bool" where
  \<comment> \<open>the updates a result proposes: \<open>lastOutput\<close> set to its value, and the two turns of
      the exchange or nothing for the history\<close>
  "proposesOnly nodeData r =
     (variableUpdates r = [(''lastOutput'', agentValue r)]
      \<and> (chatHistoryUpdates r = []
          \<or> (\<exists>answer. chatHistoryUpdates r
                = [\<lparr>role = ''user'', content = strOrDefault (instructions nodeData) ''''\<rparr>,
                   \<lparr>role = ''assistant'', content = answer\<rparr>])))"

subsection \<open>Concrete inputs\<close>

text \<open>
  An instance of the runtime, exact at what a plain object inherits (the members of
  \<open>Object.prototype\<close>) and at the properties of \<open>Object.prototype\<close> itself, whose
  \<open>__proto__\<close> is \<open>null\<close>. The runs below read nothing else from the runtime; elsewhere
  this instance answers \<open>undefined\<close>.
\<close>

definition objectPrototypeNames :: "string list" where
  "objectPrototypeNames =
     [''constructor'', ''__defineGetter__'', ''__defineSetter__'', ''hasOwnProperty'',
      ''__lookupGetter__'', ''__lookupSetter__'', ''isPrototypeOf'', ''propertyIsEnumerable'',
      ''toString'', ''valueOf'', ''__proto__'', ''toLocaleString'']"

definition objectPrototypeMember :: "string \<Rightarrow> jsval" where
  \<comment> \<open>what a plain object inherits under a name\<close>
  "objectPrototypeMember k =
     (if k = ''__proto__'' then JBuiltin (BuiltinPrototype ''Object'')
      else if k = ''constructor'' then JBuiltin (BuiltinFunction ''Object'')
      else if k \<in> set objectPrototypeNames
        then JBuiltin (BuiltinFunction (''Object.prototype.'' @ k))
      else JUndefined)"

definition plainObjectRuntime :: js_runtime where
  \<comment> \<open>a runtime for inputs whose named reads are on plain objects: an object inherits the
      members of \<open>Object.prototype\<close>, whose own \<open>__proto__\<close> is \<open>null\<close>\<close>
  "plainObjectRuntime =
     \<lparr>inherited = (\<lambda>v k. case v of JObj kvs \<Rightarrow> objectPrototypeMember k | _ \<Rightarrow> JUndefined),
      builtinMember =
        (\<lambda>b k. if b = BuiltinPrototype ''Object''
               then (if k = ''__proto__'' then Inr JNull else Inr (objectPrototypeMember k))
               else Inr JUndefined),
      largeIndexKey = (\<lambda>ds. ds)\<rparr>"

definition emptyNodeData :: node_data where
  \<comment> \<open>a payload with no field set\<close>
  "emptyNodeData =
     \<lparr>nodeName = None, instructions = None, model = None, includeChatHistory = False,
      outputFormat = None, mcpServers = None, mcpServerId = None, mcpAction = None,
      scrapeUrl = None, mapUrl = None, crawlUrl = None, searchQuery = None,
      searchLimit = None, crawlLimit = None, useJsonMode = False, outputField = None,
      customOutputPath = None, httpUrl = None, httpMethod = None, httpHeaders = None,
      httpAuthType = None, httpAuthToken = None, httpBody = None\<rparr>"

definition serverNamed :: "string \<Rightarrow> string \<Rightarrow> server_config" where
  "serverNamed n u =
     \<lparr>name = n, url = u, toolName = None, description = None, authToken = None,
      accessToken = None, schema = JUndefined\<rparr>"

definition envDefault :: process_env where
  \<comment> \<open>no variable set\<close>
  "envDefault = (\<lambda>k. None)"

definition envNoFallback :: process_env where
  "envNoFallback = (\<lambda>k. if k = ''DEMO_MODE'' then Some ''false'' else None)"

definition stateA :: workflow_state where
  "stateA =
     \<lparr>variables = [(''input'', JStr ''nvidia stock''), (''lastOutput'', JStr ''prev'')],
      chatHistory = []\<rparr>"

definition demoMCP :: mcp_externals where
  \<comment> \<open>a Firecrawl backend whose search fails and whose scrape succeeds\<close>
  "demoMCP =
     \<lparr>runtime = plainObjectRuntime,
      substituteVariables = (\<lambda>s st. s),
      JSON_parse = (\<lambda>s. Inl (Error ''Unexpected token'')),
      JSON_stringify = (\<lambda>v. ''{}''),
      resolveMCPServer = (\<lambda>i. None),
      serverFirecrawlKey = Some ''fc-key'',
      firecrawl_scrape = (\<lambda>u j. Inr (JObj [(''markdown'', JStr ''# Title'')])),
      firecrawl_search = (\<lambda>q l. Inl (Error ''quota exceeded'')),
      firecrawl_map = (\<lambda>u. Inl NonError),
      firecrawl_crawl = (\<lambda>u l. Inl NonError)\<rparr>"

definition firecrawlNode :: "string \<Rightarrow> workflow_node" where
  \<comment> \<open>a node with one inline Firecrawl server and the given action\<close>
  "firecrawlNode action =
     \<lparr>node_id = ''n1'',
      data = emptyNodeData
        \<lparr>mcpServers := Some [serverNamed ''Firecrawl'' ''https://mcp.firecrawl.dev''],
         mcpAction := Some action\<rparr>\<rparr>"

definition customPathNode :: "string \<Rightarrow> workflow_node" where
  \<comment> \<open>a search node that extracts the given custom path from the result\<close>
  "customPathNode path =
     \<lparr>node_id = ''n4'',
      data = emptyNodeData
        \<lparr>mcpServers := Some [serverNamed ''Firecrawl'' ''https://mcp.firecrawl.dev''],
         mcpAction := Some ''search'',
         outputField := Some ''custom'',
         customOutputPath := Some path\<rparr>\<rparr>"

definition deepwikiNode :: workflow_node where
  "deepwikiNode =
     \<lparr>node_id = ''n3'',
      data = emptyNodeData
        \<lparr>mcpServers := Some [serverNamed ''DeepWiki'' ''https://mcp.deepwiki.com'']\<rparr>\<rparr>"

definition unresolvedNode :: workflow_node where
  "unresolvedNode =
     \<lparr>node_id = ''n2'', data = emptyNodeData\<lparr>mcpServerId := Some ''missing''\<rparr>\<rparr>"

definition noKeys :: api_keys where
  \<comment> \<open>\<open>{}\<close>: an argument with no key in it\<close>
  "noKeys =
     \<lparr>anthropic = None, groq = None, openai = None, firecrawl = None, gemini = None,
      aimlapi = None\<rparr>"

definition failedCall :: "exn + provider_outcome" where
  "failedCall = Inl (Error ''connect ECONNREFUSED'')"

definition toolRound :: chat_completion where
  \<comment> \<open>a first completion that asks for one tool call and reports 10 prompt tokens\<close>
  "toolRound =
     \<lparr>choices = [\<lparr>message_content = None,
                  tool_calls = Some [\<lparr>call_id = ''call_1'', function_name = ''search'',
                                      function_arguments = ''{}''\<rparr>]\<rparr>],
      usage = Some (emptyUsage\<lparr>prompt_tokens := Some 10\<rparr>)\<rparr>"

definition finalRound :: chat_completion where
  \<comment> \<open>a second completion that reports 5 prompt tokens\<close>
  "finalRound =
     \<lparr>choices = [\<lparr>message_content = Some ''done'', tool_calls = None\<rparr>],
      usage = Some (emptyUsage\<lparr>prompt_tokens := Some 5\<rparr>)\<rparr>"

definition mockText :: string where
  \<comment> \<open>the text \<open>{ "nodeA": "fixed output" }\<close>\<close>
  "mockText =
     ''{ '' @ [CHR 0x22] @ ''nodeA'' @ [CHR 0x22] @ '': '' @ [CHR 0x22] @ ''fixed output''
     @ [CHR 0x22] @ '' }''"

definition mockDefaultText :: string where
  \<comment> \<open>the text \<open>{ "default": "anything" }\<close>\<close>
  "mockDefaultText =
     ''{ '' @ [CHR 0x22] @ ''default'' @ [CHR 0x22] @ '': '' @ [CHR 0x22] @ ''anything''
     @ [CHR 0x22] @ '' }''"


definition demoAgent :: agent_externals where
  \<comment> \<open>most providers fail; \<open>JSON.parse\<close> knows three texts\<close>
  "demoAgent =
     \<lparr>runtime = plainObjectRuntime,
      substituteVariables = (\<lambda>s st. s),
      JSON_parse = (\<lambda>s. if s = mockText then Inr (JObj [(''nodeA'', JStr ''fixed output'')])
                         else if s = mockDefaultText then Inr (JObj [(''default'', JStr ''anything'')])
                         else if s = ''{}'' then Inr (JObj [])
                         else Inl (Error ''Unexpected token'')),
      JSON_stringify = (\<lambda>v. ''{}''),
      migrateMCPData = (\<lambda>d. \<lparr>mcpTools = None, mcpServerIds = None\<rparr>),
      resolveMCPServers = (\<lambda>ids. []),
      anthropic_with_mcp = (\<lambda>k m ms ts f. failedCall),
      anthropic_plain = (\<lambda>k m ms. failedCall),
      openai_chat_completions = (\<lambda>k m ts tools. if tools = None then Inr finalRound
                                                   else Inr toolRound),
      mcp_tools_call = (\<lambda>s n a. Inr (JObj [(''result'', JStr ''ok'')])),
      openai_langchain = (\<lambda>k m ms. failedCall),
      groq_responses = (\<lambda>k m ms ts. failedCall),
      groq_langchain = (\<lambda>k m ms. Inr \<lparr>responseText = ''hello'', finalUsage = emptyUsage,
                                        toolCalls = []\<rparr>),
      gemini_generate = (\<lambda>k m ms. failedCall),
      aimlapi_chat = (\<lambda>k m ms. failedCall),
      fallbackText = (\<lambda>t. ''canned'')\<rparr>"



definition agentNode :: "string \<Rightarrow> string \<Rightarrow> workflow_node" where
  \<comment> \<open>an agent node with the given id and model string\<close>
  "agentNode i m = \<lparr>node_id = i, data = emptyNodeData\<lparr>model := Some m\<rparr>\<rparr>"




section \<open>Field extraction: properties\<close>

text \<open>
  Where indexing by hand along the path yields a value, the custom extraction yields the
  same value.
\<close>

lemma manualIndex_undefined: "manualIndex rt JUndefined parts = Inr v \<Longrightarrow> v = JUndefined"
  by (cases parts)
     (auto simp: manualStep_def jsRead_def nullish_def bindE_def split: option.splits)

lemma jsGet_Inr: "jsGet v k = Inr x \<Longrightarrow> \<not> nullish v \<and> x = getOwn v k"
  by (auto simp: jsGet_def split: if_splits)

lemma jsRead_Inr: "jsRead rt v k = Inr x \<Longrightarrow> jsReadOpt rt v k = Inr x"
  by (auto simp: jsRead_def jsReadOpt_def split: if_splits)

lemma walkParts_refines_manual:
  "manualIndex rt obj parts = Inr v \<Longrightarrow> walkParts rt obj parts = Inr v"
proof (induction parts arbitrary: obj)
  case Nil
  then show ?case by simp
next
  case (Cons part parts)
  from Cons.prems obtain c where
    step: "manualStep rt obj part = Inr c" and rest: "manualIndex rt c parts = Inr v"
    by (auto simp: bindE_def split: sum.splits)
  have undef: "v = JUndefined" if "c = JUndefined"
    using that rest manualIndex_undefined by blast
  show ?case
  proof (cases "arrayMatch part")
    case None
    then have "jsReadOpt rt obj part = Inr c"
      using step by (simp add: manualStep_def jsRead_Inr)
    then show ?thesis
      using None undef Cons.IH [OF rest] by simp
  next
    case (Some m)
    obtain arrayName index where m: "m = (arrayName, index)" by (cases m)
    from step Some m obtain a where
      a: "jsRead rt obj arrayName = Inr a" and c: "jsGet a (indexKey rt index) = Inr c"
      by (auto simp: manualStep_def bindE_def split: sum.splits)
    have "jsGetOpt a (indexKey rt index) = c"
      using jsGet_Inr [OF c] by (simp add: jsGetOpt_def)
    then show ?thesis
      using Some m a undef Cons.IH [OF rest] by (simp add: Let_def)
  qed
qed

lemma extractField_custom_refines_manual:
  "path \<noteq> [] \<Longrightarrow> manualIndex rt obj (split_on CHR ''.'' path) = Inr v \<Longrightarrow>
   extractField rt obj ''custom'' (Some path) = Inr v"
  by (simp add: extractField_def getNestedValue_def walkParts_refines_manual)

text \<open>
  C10. \<open>extractField(data, "full")\<close> returns \<open>data\<close> itself, whatever the shape of
  \<open>data\<close> and whatever custom path comes with it.
\<close>

theorem extractField_full_identity: "extractField rt d ''full'' customPath = Inr d"
  by (simp add: extractField_def)

text \<open>
  C4. With a custom path, a \<open>null\<close> met on the way is read safely by a plain segment
  (\<open>current?.[part]\<close>) and unsafely by a segment of the form \<open>name[index]\<close>
  (\<open>current[arrayName]\<close>): on \<open>{a: null}\<close> the path \<open>a.b.c\<close> gives \<open>undefined\<close> and the
  path \<open>a.b[0].c\<close> throws a \<open>TypeError\<close>, where the specification promises \<open>undefined\<close>.
\<close>

theorem extractField_custom_null_throws:
  "extractField rt (JObj [(''a'', JNull)]) ''custom'' (Some ''a.b[0].c'')
     = Inl (Error (''Cannot read properties of null (reading '' @ [CHR 0x27] @ ''b''
                   @ [CHR 0x27] @ '')''))
   \<and> extractField rt (JObj [(''a'', JNull)]) ''custom'' (Some ''a.b.c'') = Inr JUndefined"
  by code_simp

section \<open>The remote-tool executor: properties\<close>

lemma generateFallback_shape: "isFallbackData (generateFallbackSearchResults q)"
  unfolding generateFallbackSearchResults_def Let_def isFallbackData_def
  by (auto simp: fallbackStock_def fallbackAmazon_def fallbackGeneric_def)

text \<open>
  On the synthetic results every extraction but the custom one returns: the named
  fields read fixed names of an object, and any other field name is one read of the
  object.
\<close>

lemma extractOutput_fallback_unless_custom:
  assumes "isFallbackData d" and "outputField nodeData \<noteq> Some ''custom''"
  shows "\<exists>r. extractOutput rt nodeData d = Inr r"
proof -
  from assms(1) obtain items where d: "d = JObj [(''web'', JArr items)]"
    by (auto simp: isFallbackData_def)
  have j: "jsGet d k = Inr (getOwn d k)" for k
    by (simp add: d jsGet_def nullish_def)
  have r: "getOwn d ''results'' = JUndefined"
    by (simp add: d getOwn_def)
  have any: "jsRead rt d k = Inr (readData rt d k)" for k
    by (simp add: d jsRead_def nullish_def readMember_def)
  show ?thesis
    using assms(2) unfolding extractOutput_def extractField_def
    by (cases "outputField nodeData") (auto simp: j r any bindE_def truthyStr_def)
qed

lemma serverLoop_generic_prefix:
  "\<forall>s\<in>set pre. \<not> str_includes (toLowerCase (name s)) ''firecrawl'' \<Longrightarrow>
   serverLoop w env nd all results st (pre @ rest)
     = serverLoop w env nd all
         (fst (foldl (\<lambda>acc s. genericStep w s (fst acc) (snd acc)) (results, st) pre))
         (snd (foldl (\<lambda>acc s. genericStep w s (fst acc) (snd acc)) (results, st) pre)) rest"
  by (induction pre arbitrary: results st) simp_all

lemma index_zero: "getOwn (JArr (x # xs)) ''0'' = x"
  by (simp add: getOwn_def isIndexKey_def isDigit_def canonIndex_def nth_or_undefined_def
                parseInt_def digitVal_def)

lemma search_action: "mcpAction nd = Some ''search'' \<Longrightarrow> strOrDefault (mcpAction nd) ''scrape'' = ''search''"
  by (simp add: strOrDefault_def)

lemma search_call_fails:
  "firecrawl_search w (getSearchQuery w nd st) (numOrDefault (searchLimit nd) 5) = Inl e \<Longrightarrow>
   firecrawlTry w nd st ''search'' = (Inl e, st)"
  by (simp add: firecrawlTry_def firecrawlCall_def)

lemma firecrawl_search_fallback:
  assumes "truthyStr (serverFirecrawlKey w)" and "mcpAction nd = Some ''search''"
    and "firecrawl_search w (getSearchQuery w nd st) (numOrDefault (searchLimit nd) 5) = Inl e"
    and "useFallback env"
    and "extractOutput (runtime w) nd (generateFallbackSearchResults (getSearchQuery w nd st))
           = Inr out"
  shows "\<exists>r items. executeFirecrawl w env nd st
                     = (Inr r, setLastOutput (getOwn r ''output'') st)
           \<and> getOwn r ''_fallback'' = JBool True
           \<and> getOwn (getOwn (getOwn r ''results'') ''0'') ''data'' = JObj [(''web'', JArr items)]
           \<and> items \<noteq> []"
proof -
  let ?fb = "generateFallbackSearchResults (getSearchQuery w nd st)"
  have fb: "isFallbackData ?fb" by (rule generateFallback_shape)
  then obtain items where items: "?fb = JObj [(''web'', JArr items)]" "items \<noteq> []"
    by (auto simp: isFallbackData_def)
  have r0: "getOwn (JObj [(''results'', JArr [x]), y1, y2, y3, y4, y5]) ''results'' = JArr [x]"
    for x y1 y2 y3 y4 y5 by (simp add: getOwn_def)
  show ?thesis
    using assms(1,4,5) search_action [OF assms(2)] search_call_fails [OF assms(3)] items
    by (simp add: executeFirecrawl_def firecrawlCatch_def Let_def r0 index_zero)
       (simp add: getOwn_def)
qed

lemma firecrawl_search_rethrow:
  assumes "truthyStr (serverFirecrawlKey w)" and "mcpAction nd = Some ''search''"
    and "firecrawl_search w (getSearchQuery w nd st) (numOrDefault (searchLimit nd) 5) = Inl e"
    and "\<not> useFallback env"
  shows "executeFirecrawl w env nd st
           = (Inl (Error (''Firecrawl search failed: '' @ errorMessage e)), st)"
  using assms(1,4) search_action [OF assms(2)] search_call_fails [OF assms(3)]
  by (simp add: executeFirecrawl_def firecrawlCatch_def)

text \<open>
  The failure policy of a search, for every node that does not extract a custom path. A
  node whose action is \<open>search\<close> reaches a Firecrawl server (the servers \<open>pre\<close> before it
  in the list are generic ones) with the key configured, and the backend's search,
  called with the query and the limit of the node, throws \<open>e\<close>. If the fallback policy
  is on, the executor returns a result whose \<open>_fallback\<close> is \<open>true\<close> and whose
  \<open>results[0].data\<close> holds a non-empty \<open>web\<close> list, and \<open>lastOutput\<close> becomes the \<open>output\<close>
  of that result. If the policy is off, it throws \<open>Firecrawl search failed:\<close> followed by
  the message of \<open>e\<close>.
\<close>

lemma firecrawl_search_policy_unless_custom:
  assumes servers: "resolveServers w (data node) = pre @ sc # post"
    and generic: "\<forall>s\<in>set pre. \<not> str_includes (toLowerCase (name s)) ''firecrawl''"
    and fc: "str_includes (toLowerCase (name sc)) ''firecrawl''"
    and apikey: "truthyStr (serverFirecrawlKey w)"
    and action: "mcpAction (data node) = Some ''search''"
    and throws: "firecrawl_search w (getSearchQuery w (data node) (afterGeneric w pre st))
                   (numOrDefault (searchLimit (data node)) 5) = Inl e"
    and nocustom: "outputField (data node) \<noteq> Some ''custom''"
  shows "(useFallback env \<longrightarrow>
            (\<exists>r items. executeMCPNode w env node st
                          = (Inr r, setLastOutput (getOwn r ''output'') (afterGeneric w pre st))
               \<and> getOwn r ''_fallback'' = JBool True
               \<and> getOwn (getOwn (getOwn r ''results'') ''0'') ''data''
                   = JObj [(''web'', JArr items)]
               \<and> items \<noteq> []))
       \<and> (\<not> useFallback env \<longrightarrow>
            executeMCPNode w env node st
              = (Inl (Error (''Firecrawl search failed: '' @ errorMessage e)),
                 afterGeneric w pre st))"
proof -
  let ?st1 = "afterGeneric w pre st"
  have "executeMCPNode w env node st
          = serverLoop w env (data node) (pre @ sc # post) [] st (pre @ sc # post)"
    using servers by (simp add: executeMCPNode_def Let_def)
  then have ex: "executeMCPNode w env node st = executeFirecrawl w env (data node) ?st1"
    using serverLoop_generic_prefix [OF generic, of w env "data node" "pre @ sc # post" "[]" st
                                       "sc # post"] fc
    by (simp add: afterGeneric_def)
  obtain out where
    out: "extractOutput (runtime w) (data node)
            (generateFallbackSearchResults (getSearchQuery w (data node) ?st1)) = Inr out"
    using extractOutput_fallback_unless_custom [OF generateFallback_shape nocustom] by blast
  show ?thesis
    using firecrawl_search_fallback [OF apikey action throws _ out, of env]
          firecrawl_search_rethrow [OF apikey action throws, of env]
    by (auto simp: ex)
qed

text \<open>
  C3. With the fallback policy on and a search whose backend throws, the executor is to
  return the synthetic results. It does not when the node extracts a custom path that
  reaches a \<open>null\<close> before a segment of the form \<open>name[index]\<close>: the path
  \<open>__proto__.__proto__.x[0]\<close> finds \<open>Object.prototype\<close>, then its \<open>__proto__\<close>, which is
  \<open>null\<close>, and \<open>current[arrayName]\<close> throws inside the \<open>catch\<close> block, so the executor
  throws a \<open>TypeError\<close> and leaves the state as it was. With the plain last segment
  \<open>x\<close> the same node gets its result, marked \<open>_fallback\<close>. This is the unguarded read of
  C4.
\<close>

theorem firecrawl_fallback_custom_path_throws:
  "useFallback envDefault
   \<and> executeMCPNode demoMCP envDefault (customPathNode ''__proto__.__proto__.x[0]'') stateA
       = (Inl (Error (''Cannot read properties of null (reading '' @ [CHR 0x27] @ ''x''
                      @ [CHR 0x27] @ '')'')), stateA)
   \<and> \<not> isl (fst (executeMCPNode demoMCP envDefault (customPathNode ''__proto__.__proto__.x'')
                    stateA))
   \<and> getOwn (projr (fst (executeMCPNode demoMCP envDefault
                            (customPathNode ''__proto__.__proto__.x'') stateA))) ''_fallback''
       = JBool True"
proof -
  have "useFallback envDefault" by (simp add: useFallback_def envDefault_def)
  moreover have
    "executeMCPNode demoMCP envDefault (customPathNode ''__proto__.__proto__.x[0]'') stateA
       = (Inl (Error (''Cannot read properties of null (reading '' @ [CHR 0x27] @ ''x''
                      @ [CHR 0x27] @ '')'')), stateA)"
    by code_simp
  moreover have
    "\<not> isl (fst (executeMCPNode demoMCP envDefault (customPathNode ''__proto__.__proto__.x'')
                   stateA))"
    by code_simp
  moreover have
    "getOwn (projr (fst (executeMCPNode demoMCP envDefault
                           (customPathNode ''__proto__.__proto__.x'') stateA))) ''_fallback''
       = JBool True"
    by code_simp
  ultimately show ?thesis by simp
qed

text \<open>
  C9. A node with no inline server list (or an empty one) whose server identifier is
  absent or does not resolve: the executor returns the object
  \<open>{error: 'No MCP servers configured or could not resolve server'}\<close>, it does not
  throw, and the state is as it was.
\<close>

theorem no_server_error_result:
  assumes "mcpServers (data node) = None \<or> mcpServers (data node) = Some []"
    and "\<not> truthyStr (mcpServerId (data node))
         \<or> resolveMCPServer w (the (mcpServerId (data node))) = None"
  shows "executeMCPNode w env node st
           = (Inr (JObj [(''error'',
                          JStr ''No MCP servers configured or could not resolve server'')]), st)"
  using assms by (auto simp: executeMCPNode_def resolveServers_def Let_def)

theorem no_server_error_result_witness:
  "executeMCPNode demoMCP envDefault unresolvedNode stateA
     = (Inr (JObj [(''error'',
                    JStr ''No MCP servers configured or could not resolve server'')]), stateA)"
  using no_server_error_result [of unresolvedNode demoMCP envDefault stateA]
  by (simp add: unresolvedNode_def emptyNodeData_def demoMCP_def)

section \<open>The agent executor: properties\<close>

lemma str_includes_empty: "str_includes s []"
  by (cases s) simp_all

lemma startsWith_append: "startsWith a t \<Longrightarrow> startsWith (a @ b) t"
  by (induction a t rule: startsWith.induct) auto

lemma str_includes_append: "str_includes a t \<Longrightarrow> str_includes (a @ b) t"
proof (induction a)
  case Nil
  then show ?case by (simp add: str_includes_empty)
next
  case (Cons x a)
  then show ?case using startsWith_append [of "x # a" t b] by auto
qed

lemma no_key_message_mentions_api_key:
  "str_includes (''No API key available for provider: '' @ p) ''API key''"
  by (rule str_includes_append) code_simp

lemma callProvider_no_key:
  "\<not> truthyStr (keyFor apiKeys p) \<Longrightarrow>
   callProvider w apiKeys p m msgs tools
     = Inl (Error (''No API key available for provider: '' @ p))"
  by (auto simp: callProvider_def keyFor_def split: if_splits)

lemma agentTry_no_key:
  assumes "mockResponse w env node = None"
    and "\<not> truthyStr (keyFor apiKeys (requestedProvider node))"
  shows "agentTry w env node st (Some apiKeys)
           = Inl (Error (''No API key available for provider: '' @ requestedProvider node))"
  using assms(1) callProvider_no_key [OF assms(2)]
  by (simp add: agentTry_def Let_def requestedProvider_def bindE_def)

subsection \<open>The shape of every result\<close>

lemma proposesOnly_result:
  "proposesOnly nd \<lparr>agentValue = v, agentToolCalls = t, chatHistoryUpdates = chatUpdates nd a,
                    variableUpdates = [(''lastOutput'', v)], fallbackFlag = f\<rparr>"
  by (simp add: proposesOnly_def chatUpdates_def)

lemma mockResponse_shape: "mockResponse w env node = Some r \<Longrightarrow> proposesOnly (data node) r"
  by (auto simp: mockResponse_def Let_def proposesOnly_result split: if_splits)

lemma agentTry_shape: "agentTry w env node st apiKeys = Inr r \<Longrightarrow> proposesOnly (data node) r"
  by (auto simp: agentTry_def Let_def bindE_def proposesOnly_result mockResponse_shape
           split: option.splits sum.splits)

lemma agentCatch_shape: "agentCatch w env node st e = Inr r \<Longrightarrow> proposesOnly (data node) r"
  by (auto simp: agentCatch_def Let_def proposesOnly_result split: if_splits)

lemma executeAgentNode_shape:
  "fst (executeAgentNode w env node st apiKeys) = Inr r \<Longrightarrow> proposesOnly (data node) r"
  by (auto simp: executeAgentNode_def agentTry_shape agentCatch_shape split: sum.splits)

lemma executeAgentNode_state: "snd (executeAgentNode w env node st apiKeys) = st"
  by (simp add: executeAgentNode_def split: sum.splits)

subsection \<open>Concrete runs\<close>

lemma run_groq_no_key_no_fallback:
  "executeAgentNode demoAgent envNoFallback (agentNode ''step'' ''groq/llama-3.3-70b'') stateA
     (Some noKeys)
   = (Inl (Error ''Missing API key. Please add your LLM provider key in Settings.''), stateA)"
  by code_simp

lemma run_groq_no_key_default_env:
  "executeAgentNode demoAgent envDefault (agentNode ''step'' ''groq/llama-3.3-70b'') stateA
     (Some noKeys)
   = (Inr \<lparr>agentValue = JStr ''canned'', agentToolCalls = [], chatHistoryUpdates = [],
           variableUpdates = [(''lastOutput'', JStr ''canned'')], fallbackFlag = True\<rparr>, stateA)"
  by code_simp

lemma run_groq_with_key:
  "executeAgentNode demoAgent envDefault (agentNode ''step'' ''groq/llama-3.3-70b'') stateA
     (Some (noKeys\<lparr>groq := Some ''gsk''\<rparr>))
   = (Inr \<lparr>agentValue = JStr ''hello'', agentToolCalls = [], chatHistoryUpdates = [],
           variableUpdates = [(''lastOutput'', JStr ''hello'')], fallbackFlag = False\<rparr>, stateA)"
  by code_simp

subsection \<open>No key for the requested provider\<close>

text \<open>
  C1, as the code has it. For a node whose model string requests a provider with no key
  in \<open>apiKeys\<close> (and no mock response configured), the dispatch raises
  \<open>No API key available for provider:\<close> followed by the provider. That error does not
  leave the executor: its \<open>catch\<close> block returns the canned fallback result, marked
  \<open>_fallback\<close>, when the fallback policy is on, and otherwise throws one of its fixed
  texts about a missing key, none of which is built from the provider.
\<close>

theorem missing_provider_key_outcome:
  assumes "mockResponse w env node = None"
    and "\<not> truthyStr (keyFor apiKeys (requestedProvider node))"
  shows "agentTry w env node st (Some apiKeys)
           = Inl (Error (''No API key available for provider: '' @ requestedProvider node))
       \<and> (useFallback env \<longrightarrow>
            (\<exists>r. executeAgentNode w env node st (Some apiKeys) = (Inr r, st) \<and> fallbackFlag r))
       \<and> (\<not> useFallback env \<longrightarrow>
            (\<exists>m. executeAgentNode w env node st (Some apiKeys) = (Inl (Error m), st)
               \<and> (m = ''Missing API key. Please add your LLM provider key in Settings.''
                    \<or> m = ''No API key configured. Please add a Gemini, AI/ML API, Anthropic, OpenAI, or Groq API key in your .env.local file.'')))"
proof -
  have tried: "agentTry w env node st (Some apiKeys)
               = Inl (Error (''No API key available for provider: '' @ requestedProvider node))"
    using assms by (rule agentTry_no_key)
  have msg: "str_includes
               (errorMessage (Error (''No API key available for provider: ''
                                     @ requestedProvider node))) ''API key''"
    by (simp add: errorMessage_def no_key_message_mentions_api_key)
  show ?thesis
    using tried msg by (simp add: executeAgentNode_def agentCatch_def Let_def)
qed

lemma demo_no_mock: "mockResponse demoAgent envNoFallback n = None"
  by (simp add: mockResponse_def envNoFallback_def truthyStr_def)

lemma demo_no_mock_default: "mockResponse demoAgent envDefault n = None"
  by (simp add: mockResponse_def envDefault_def truthyStr_def)

lemma demo_groq_no_key:
  "\<not> truthyStr (keyFor noKeys (requestedProvider (agentNode ''step'' ''groq/llama-3.3-70b'')))"
  by code_simp

theorem missing_provider_key_outcome_witness:
  "agentTry demoAgent envNoFallback (agentNode ''step'' ''groq/llama-3.3-70b'') stateA
     (Some noKeys) = Inl (Error ''No API key available for provider: groq'')
   \<and> (\<exists>m. executeAgentNode demoAgent envNoFallback (agentNode ''step'' ''groq/llama-3.3-70b'')
             stateA (Some noKeys) = (Inl (Error m), stateA))
   \<and> (\<exists>r. executeAgentNode demoAgent envDefault (agentNode ''step'' ''groq/llama-3.3-70b'')
             stateA (Some noKeys) = (Inr r, stateA) \<and> fallbackFlag r)"
proof -
  have p: "requestedProvider (agentNode ''step'' ''groq/llama-3.3-70b'') = ''groq''"
    by code_simp
  have f1: "\<not> useFallback envNoFallback" by (simp add: useFallback_def envNoFallback_def)
  have f2: "useFallback envDefault" by (simp add: useFallback_def envDefault_def)
  show ?thesis
    using missing_provider_key_outcome [OF demo_no_mock demo_groq_no_key, of stateA]
          missing_provider_key_outcome [OF demo_no_mock_default demo_groq_no_key, of stateA]
          p f1 f2
    by auto
qed

text \<open>
  C1 as stated fails. The node requests \<open>groq\<close>, \<open>apiKeys\<close> holds no key. With the
  fallback policy off the executor throws a message in which \<open>groq\<close> does not occur;
  with the environment unset it throws nothing and returns the canned response.
\<close>

theorem missing_provider_key_counterexample:
  "\<not> truthyStr (keyFor noKeys (requestedProvider (agentNode ''step'' ''groq/llama-3.3-70b'')))
   \<and> executeAgentNode demoAgent envNoFallback (agentNode ''step'' ''groq/llama-3.3-70b'') stateA
        (Some noKeys)
      = (Inl (Error ''Missing API key. Please add your LLM provider key in Settings.''), stateA)
   \<and> \<not> str_includes ''Missing API key. Please add your LLM provider key in Settings.'' ''groq''
   \<and> executeAgentNode demoAgent envDefault (agentNode ''step'' ''groq/llama-3.3-70b'') stateA
        (Some noKeys)
      = (Inr \<lparr>agentValue = JStr ''canned'', agentToolCalls = [], chatHistoryUpdates = [],
              variableUpdates = [(''lastOutput'', JStr ''canned'')], fallbackFlag = True\<rparr>,
         stateA)"
proof -
  have "\<not> str_includes ''Missing API key. Please add your LLM provider key in Settings.''
            ''groq''"
    by code_simp
  then show ?thesis
    using demo_groq_no_key run_groq_no_key_no_fallback run_groq_no_key_default_env by simp
qed

subsection \<open>The mock response\<close>









subsection \<open>Usage of the two completion calls\<close>

lemma tokenCount_final:
  "tokenCount (case final of None \<Rightarrow> None | Some f \<Rightarrow> sel f) = tokenCount (sel (usageOrEmpty final))"
  if "sel emptyUsage = None"
  using that by (cases final) (simp_all add: usageOrEmpty_def)

lemma addUsage_fields:
  "prompt_tokens (addUsage u final)
     = Some (tokenCount (prompt_tokens u) + tokenCount (prompt_tokens (usageOrEmpty final)))"
  "completion_tokens (addUsage u final)
     = Some (tokenCount (completion_tokens u)
             + tokenCount (completion_tokens (usageOrEmpty final)))"
  "total_tokens (addUsage u final)
     = Some (tokenCount (total_tokens u) + tokenCount (total_tokens (usageOrEmpty final)))"
  "input_tokens (addUsage u final) = input_tokens u"
  "output_tokens (addUsage u final) = output_tokens u"
  by (simp_all add: addUsage_def tokenCount_final emptyUsage_def)

text \<open>
  C7. In the OpenAI branch with tools, when the first completion asks for tool calls and
  the branch completes, the usage it leaves has, for \<open>prompt_tokens\<close>,
  \<open>completion_tokens\<close> and \<open>total_tokens\<close>, the sum of what the first and the second
  completion report (a count that a completion does not report is 0).
\<close>

theorem openai_usage_is_sum:
  assumes first: "openai_chat_completions w apiKey modelName (map Turn messages)
                    (Some (map openaiTool tools)) = Inr response"
    and message: "firstChoice response = Inr message"
    and calls: "tool_calls message = Some cs" "cs \<noteq> []"
    and second: "openai_chat_completions w apiKey modelName
                   (map Turn messages @ [AssistantTurn message]
                    @ map ToolTurn (map (executeToolCall w tools) cs)) None = Inr finalResponse"
    and returned: "openaiToolLoop w apiKey modelName messages tools = Inr outcome"
  shows "prompt_tokens (finalUsage outcome)
           = Some (tokenCount (prompt_tokens (usageOrEmpty (usage response)))
                   + tokenCount (prompt_tokens (usageOrEmpty (usage finalResponse))))
       \<and> completion_tokens (finalUsage outcome)
           = Some (tokenCount (completion_tokens (usageOrEmpty (usage response)))
                   + tokenCount (completion_tokens (usageOrEmpty (usage finalResponse))))
       \<and> total_tokens (finalUsage outcome)
           = Some (tokenCount (total_tokens (usageOrEmpty (usage response)))
                   + tokenCount (total_tokens (usageOrEmpty (usage finalResponse))))"
proof -
  have "finalUsage outcome = addUsage (usageOrEmpty (usage response)) (usage finalResponse)"
    using assms
    by (auto simp: openaiToolLoop_def bindE_def Let_def split: sum.splits)
  then show ?thesis by (simp add: addUsage_fields)
qed

text \<open>The instance of the specification: 10 prompt tokens, then 5, give 15.\<close>

theorem openai_usage_is_sum_witness:
  "\<exists>outcome. openaiToolLoop demoAgent ''sk'' ''gpt-4o'' [\<lparr>role = ''user'', content = ''hi''\<rparr>]
                [serverNamed ''search'' ''https://tools.example.com''] = Inr outcome
       \<and> prompt_tokens (finalUsage outcome) = Some 15"
proof -
  let ?msgs = "[\<lparr>role = ''user'', content = ''hi''\<rparr>]"
  let ?tools = "[serverNamed ''search'' ''https://tools.example.com'']"
  let ?message = "\<lparr>message_content = None,
                   tool_calls = Some [\<lparr>call_id = ''call_1'', function_name = ''search'',
                                       function_arguments = ''{}''\<rparr>]\<rparr>"
  let ?cs = "[\<lparr>call_id = ''call_1'', function_name = ''search'', function_arguments = ''{}''\<rparr>]"
  have first: "openai_chat_completions demoAgent ''sk'' ''gpt-4o'' (map Turn ?msgs)
                 (Some (map openaiTool ?tools)) = Inr toolRound"
    by (simp add: demoAgent_def)
  have message: "firstChoice toolRound = Inr ?message"
    by (simp add: firstChoice_def toolRound_def)
  have calls: "tool_calls ?message = Some ?cs" "?cs \<noteq> []"
    by simp_all
  have second: "openai_chat_completions demoAgent ''sk'' ''gpt-4o''
                  (map Turn ?msgs @ [AssistantTurn ?message]
                   @ map ToolTurn (map (executeToolCall demoAgent ?tools) ?cs)) None
                = Inr finalRound"
    by (simp add: demoAgent_def)
  have "\<not> isl (openaiToolLoop demoAgent ''sk'' ''gpt-4o'' ?msgs ?tools)"
    by code_simp
  then obtain outcome where
    returned: "openaiToolLoop demoAgent ''sk'' ''gpt-4o'' ?msgs ?tools = Inr outcome"
    by (cases "openaiToolLoop demoAgent ''sk'' ''gpt-4o'' ?msgs ?tools") auto
  have "prompt_tokens (finalUsage outcome) = Some 15"
    using openai_usage_is_sum [OF first message calls second returned]
    by (simp add: toolRound_def finalRound_def usageOrEmpty_def tokenCount_def emptyUsage_def)
  then show ?thesis using returned by blast
qed

subsection \<open>The state\<close>

text \<open>
  C8. The executor leaves the state as it received it, whatever the outcome: the
  history and the variables are unchanged. What a returned result proposes is in its
  two update fields: \<open>lastOutput\<close> set to the value of the result, and for the history
  either nothing or the user turn and the assistant turn of the exchange.
\<close>

theorem agent_never_mutates_state:
  "snd (executeAgentNode w env node st apiKeys) = st
   \<and> chatHistory (snd (executeAgentNode w env node st apiKeys)) = chatHistory st
   \<and> variables (snd (executeAgentNode w env node st apiKeys)) = variables st
   \<and> (\<forall>r. fst (executeAgentNode w env node st apiKeys) = Inr r \<longrightarrow>
          proposesOnly (data node) r)"
  by (simp add: executeAgentNode_state executeAgentNode_shape)

theorem agent_never_mutates_state_witness:
  "snd (executeAgentNode demoAgent envDefault (agentNode ''step'' ''groq/llama-3.3-70b'') stateA
          (Some (noKeys\<lparr>groq := Some ''gsk''\<rparr>))) = stateA
   \<and> (\<exists>r. fst (executeAgentNode demoAgent envDefault (agentNode ''step'' ''groq/llama-3.3-70b'')
                  stateA (Some (noKeys\<lparr>groq := Some ''gsk''\<rparr>))) = Inr r
          \<and> variableUpdates r = [(''lastOutput'', JStr ''hello'')]
          \<and> chatHistoryUpdates r = []
          \<and> proposesOnly (data (agentNode ''step'' ''groq/llama-3.3-70b'')) r)"
  using agent_never_mutates_state
          [of demoAgent envDefault "agentNode ''step'' ''groq/llama-3.3-70b''" stateA
              "Some (noKeys\<lparr>groq := Some ''gsk''\<rparr>)"]
        run_groq_with_key
  by simp

section \<open>\<open>lastOutput\<close> and the output of a step\<close>

lemma getVar_setLastOutput: "getVar (setLastOutput v st) ''lastOutput'' = v"
  by (simp add: getVar_def setLastOutput_def update_conv')

lemma firecrawlTry_output:
  "firecrawlTry w nd st action = (Inr r, st') \<Longrightarrow>
   hasKey r ''output'' \<and> getVar st' ''lastOutput'' = getOwn r ''output''"
  by (auto simp: firecrawlTry_def Let_def hasKey_def getOwn_def getVar_setLastOutput
           split: sum.splits)

lemma firecrawlTry_failure: "firecrawlTry w nd st action = (Inl e, st') \<Longrightarrow> st' = st"
  by (auto simp: firecrawlTry_def Let_def split: sum.splits)

lemma firecrawlCatch_output:
  "firecrawlCatch w env nd st action e = (Inr r, st') \<Longrightarrow>
   hasKey r ''output'' \<and> getVar st' ''lastOutput'' = getOwn r ''output''"
  by (auto simp: firecrawlCatch_def Let_def hasKey_def getOwn_def getVar_setLastOutput
           split: sum.splits if_splits)

lemma executeFirecrawl_output:
  assumes "executeFirecrawl w env nd st = (Inr r, st')"
  shows "hasKey r ''output'' \<and> getVar st' ''lastOutput'' = getOwn r ''output''"
proof -
  let ?action = "strOrDefault (mcpAction nd) ''scrape''"
  obtain o1 s1 where t: "firecrawlTry w nd st ?action = (o1, s1)"
    by (cases "firecrawlTry w nd st ?action")
  have k: "truthyStr (serverFirecrawlKey w)"
    using assms by (auto simp: executeFirecrawl_def split: if_splits)
  show ?thesis
  proof (cases o1)
    case (Inr x)
    then show ?thesis
      using assms t k firecrawlTry_output [of w nd st ?action x s1]
      by (simp add: executeFirecrawl_def Let_def)
  next
    case (Inl e)
    then show ?thesis
      using assms t k firecrawlCatch_output [of w env nd s1 ?action e r st']
      by (simp add: executeFirecrawl_def Let_def)
  qed
qed

lemma lastSuccessData_snoc_success:
  "lastSuccessData (rs @ [JObj [(''server'', s), (''tool'', t), (''success'', JBool True),
                                (''data'', d)]]) = Some d"
proof -
  let ?e = "JObj [(''server'', s), (''tool'', t), (''success'', JBool True), (''data'', d)]"
  have "getOwn ?e ''success'' = JBool True" and "getOwn ?e ''data'' = d"
    by (simp_all add: getOwn_def)
  then show ?thesis by (simp add: lastSuccessData_def)
qed

lemma lastSuccessData_snoc_failure:
  "lastSuccessData (rs @ [JObj [(''server'', s), (''error'', m), (''success'', JBool False)]])
     = lastSuccessData rs"
proof -
  let ?e = "JObj [(''server'', s), (''error'', m), (''success'', JBool False)]"
  have "getOwn ?e ''success'' \<noteq> JBool True"
    by (simp add: getOwn_def)
  then show ?thesis by (simp add: lastSuccessData_def)
qed

text \<open>
  The loop over the servers: as long as \<open>lastOutput\<close> is the data of the last successful
  entry collected so far, it is so in the result returned at the end of the list; a
  result that carries an \<open>output\<close> comes from the Firecrawl branch.
\<close>

lemma serverLoop_output:
  assumes "serverLoop w env nd all results st servers = (Inr r, st')"
    and "\<And>d. lastSuccessData results = Some d \<Longrightarrow> getVar st ''lastOutput'' = d"
  shows "(hasKey r ''output'' \<longrightarrow> getVar st' ''lastOutput'' = getOwn r ''output'')
       \<and> (\<not> hasKey r ''output'' \<longrightarrow>
            (\<exists>rs. getOwn r ''results'' = JArr rs
               \<and> (\<forall>d. lastSuccessData rs = Some d \<longrightarrow> getVar st' ''lastOutput'' = d)))"
  using assms
proof (induction servers arbitrary: results st)
  case Nil
  then show ?case by (auto simp: hasKey_def getOwn_def)
next
  case (Cons sc servers)
  show ?case
  proof (cases "str_includes (toLowerCase (name sc)) ''firecrawl''")
    case True
    then have "executeFirecrawl w env nd st = (Inr r, st')"
      using Cons.prems(1) by simp
    then show ?thesis using executeFirecrawl_output by blast
  next
    case False
    let ?results = "fst (genericStep w sc results st)"
    let ?st = "snd (genericStep w sc results st)"
    have run: "serverLoop w env nd all ?results ?st servers = (Inr r, st')"
      using Cons.prems(1) False by simp
    have inv: "getVar ?st ''lastOutput'' = d" if "lastSuccessData ?results = Some d" for d
    proof (cases "executeGenericMCPServer w sc st")
      case (Inr result)
      then show ?thesis
        using that
        by (simp add: genericStep_def lastSuccessData_snoc_success getVar_setLastOutput)
    next
      case (Inl error)
      then show ?thesis
        using that Cons.prems(2)
        by (simp add: genericStep_def lastSuccessData_snoc_failure)
    qed
    show ?thesis by (rule Cons.IH [OF run inv])
  qed
qed

lemma executeMCPNode_output:
  assumes "executeMCPNode w env node st = (Inr r, st')"
  shows "(hasKey r ''output'' \<longrightarrow> getVar st' ''lastOutput'' = getOwn r ''output'')
       \<and> (\<forall>rs d. \<not> hasKey r ''output'' \<and> getOwn r ''results'' = JArr rs
                  \<and> lastSuccessData rs = Some d \<longrightarrow> getVar st' ''lastOutput'' = d)"
proof (cases "resolveServers w (data node) = []")
  case True
  then have "r = JObj [(''error'', JStr ''No MCP servers configured or could not resolve server'')]"
    using assms by (auto simp: executeMCPNode_def Let_def)
  then show ?thesis by (simp add: hasKey_def getOwn_def)
next
  case False
  let ?servers = "resolveServers w (data node)"
  have run: "serverLoop w env (data node) ?servers [] st ?servers = (Inr r, st')"
    using assms False by (simp add: executeMCPNode_def Let_def)
  have inv: "getVar st ''lastOutput'' = d" if "lastSuccessData [] = Some d" for d
    using that by (simp add: lastSuccessData_def)
  show ?thesis using serverLoop_output [OF run inv] by auto
qed

lemma executeAgentNode_output:
  "fst (executeAgentNode w env node st apiKeys) = Inr r \<Longrightarrow>
   map_of (variableUpdates r) ''lastOutput'' = Some (agentValue r)"
  using executeAgentNode_shape [of w env node st apiKeys r] by (simp add: proposesOnly_def)

text \<open>
  C2. For every invocation that returns a result: the agent executor's
  \<open>__variableUpdates\<close> holds under \<open>lastOutput\<close> the value of the result
  (\<open>__agentValue\<close>); after the remote-tool executor, \<open>state.variables.lastOutput\<close> is the
  \<open>output\<close> of the result when the result has one (the Firecrawl returns), and otherwise
  (the generic servers, which surface their outputs as the \<open>data\<close> of the entries of
  \<open>results\<close>) the \<open>data\<close> of the last entry that succeeded.
\<close>

theorem lastOutput_is_step_output:
  "(\<forall>r. fst (executeAgentNode w env node st apiKeys) = Inr r \<longrightarrow>
        map_of (variableUpdates r) ''lastOutput'' = Some (agentValue r))
   \<and> (\<forall>r st'. executeMCPNode mw env node st = (Inr r, st') \<longrightarrow>
        (hasKey r ''output'' \<longrightarrow> getVar st' ''lastOutput'' = getOwn r ''output'')
        \<and> (\<forall>rs d. \<not> hasKey r ''output'' \<and> getOwn r ''results'' = JArr rs
                   \<and> lastSuccessData rs = Some d \<longrightarrow> getVar st' ''lastOutput'' = d))"
  using executeAgentNode_output executeMCPNode_output by blast

lemma returned_pair: "\<not> isl (fst p) \<Longrightarrow> p = (Inr (projr (fst p)), snd p)"
  by (cases p; cases "fst p") auto

theorem lastOutput_is_step_output_witness:
  "(\<exists>r. fst (executeAgentNode demoAgent envDefault (agentNode ''step'' ''groq/llama-3.3-70b'')
               stateA (Some (noKeys\<lparr>groq := Some ''gsk''\<rparr>))) = Inr r
        \<and> agentValue r = JStr ''hello''
        \<and> map_of (variableUpdates r) ''lastOutput'' = Some (JStr ''hello''))
   \<and> (\<exists>r st'. executeMCPNode demoMCP envDefault (firecrawlNode ''scrape'') stateA = (Inr r, st')
        \<and> getOwn r ''output'' = JObj [(''markdown'', JStr ''# Title'')]
        \<and> getVar st' ''lastOutput'' = JObj [(''markdown'', JStr ''# Title'')])
   \<and> (\<exists>r st' rs d. executeMCPNode demoMCP envDefault deepwikiNode stateA = (Inr r, st')
        \<and> \<not> hasKey r ''output'' \<and> getOwn r ''results'' = JArr rs
        \<and> lastSuccessData rs = Some d \<and> getVar st' ''lastOutput'' = d)"
proof -
  let ?agent = "executeAgentNode demoAgent envDefault (agentNode ''step'' ''groq/llama-3.3-70b'')
                  stateA (Some (noKeys\<lparr>groq := Some ''gsk''\<rparr>))"
  let ?scrape = "executeMCPNode demoMCP envDefault (firecrawlNode ''scrape'') stateA"
  let ?wiki = "executeMCPNode demoMCP envDefault deepwikiNode stateA"
  have a: "fst ?agent = Inr \<lparr>agentValue = JStr ''hello'', agentToolCalls = [],
                              chatHistoryUpdates = [],
                              variableUpdates = [(''lastOutput'', JStr ''hello'')],
                              fallbackFlag = False\<rparr>"
    by (simp add: run_groq_with_key)
  have s1: "\<not> isl (fst ?scrape)" by code_simp
  have s2: "hasKey (projr (fst ?scrape)) ''output''" by code_simp
  have s3: "getOwn (projr (fst ?scrape)) ''output'' = JObj [(''markdown'', JStr ''# Title'')]"
    by code_simp
  have w1: "\<not> isl (fst ?wiki)" by code_simp
  have w2: "\<not> hasKey (projr (fst ?wiki)) ''output''" by code_simp
  have w3: "(case getOwn (projr (fst ?wiki)) ''results'' of
               JArr rs \<Rightarrow> lastSuccessData rs \<noteq> None
             | _ \<Rightarrow> False)"
    by code_simp
  obtain rs d where w4: "getOwn (projr (fst ?wiki)) ''results'' = JArr rs"
    "lastSuccessData rs = Some d"
    using w3 by (auto split: jsval.splits)
  have first: "\<exists>r. fst ?agent = Inr r \<and> agentValue r = JStr ''hello''
                  \<and> map_of (variableUpdates r) ''lastOutput'' = Some (JStr ''hello'')"
    using lastOutput_is_step_output
            [of demoAgent envDefault "agentNode ''step'' ''groq/llama-3.3-70b''" stateA
                "Some (noKeys\<lparr>groq := Some ''gsk''\<rparr>)" demoMCP] a
    by simp
  have second: "\<exists>r st'. ?scrape = (Inr r, st')
                  \<and> getOwn r ''output'' = JObj [(''markdown'', JStr ''# Title'')]
                  \<and> getVar st' ''lastOutput'' = JObj [(''markdown'', JStr ''# Title'')]"
    using lastOutput_is_step_output
            [of demoAgent envDefault "firecrawlNode ''scrape''" stateA None demoMCP]
          returned_pair [OF s1] s2 s3
    by metis
  have third: "\<exists>r st' rs d. ?wiki = (Inr r, st') \<and> \<not> hasKey r ''output''
                  \<and> getOwn r ''results'' = JArr rs \<and> lastSuccessData rs = Some d
                  \<and> getVar st' ''lastOutput'' = d"
    using lastOutput_is_step_output [of demoAgent envDefault deepwikiNode stateA None demoMCP]
          returned_pair [OF w1] w2 w4
    by metis
  show ?thesis using first second third by blast
qed

section \<open>The HTTP executor: properties\<close>








end
